theory Spec2Isabelle
  imports Complex_Main "HOL-Library.Log_Nat"
begin

section \<open>Token lifecycle of \<^verbatim>\<open>src/utils/auth.py\<close>\<close>

text \<open>
  The module keeps two tokens in \<^verbatim>\<open>st.session_state\<close>: an OAuth access token and a
  streamer token obtained with it. Each acquisition function first looks at its own
  cache slot and otherwise performs one HTTP exchange and writes the slot.

  Everything the module touches outside its own arguments is a field of one
  \<open>world\<close> value that the functions take and return: the secrets, the session state,
  the clock and the network. An exception is a value \<open>Inl e\<close> of the result.
\<close>

subsection \<open>Python floats\<close>

text \<open>
  A Python \<^verbatim>\<open>float\<close> is an IEEE 754 double: a finite value, which is a rational, an
  infinity or NaN. The sign of zero is not modelled; no operation of the module
  tells the two zeros apart.
\<close>

datatype pyfloat = Finite rat | PInf | NInf | NaN

text \<open>Rounding to the nearest integer, a tie going to the even one.\<close>

definition round_half_even :: "rat \<Rightarrow> int" where
  "round_half_even x =
     (let n = \<lfloor>x\<rfloor>; f = x - of_int n
      in if f < 1 / 2 then n else if 1 / 2 < f then n + 1 else if even n then n else n + 1)"

text \<open>
  For \<open>0 < a\<close>, the exponent \<open>e\<close> with \<open>2 powi e \<le> a < 2 powi (e + 1)\<close>, from the
  bit lengths of the numerator and the denominator.
\<close>

definition floor_log2 :: "rat \<Rightarrow> int" where
  "floor_log2 a =
     (case quotient_of a of
        (p, q) \<Rightarrow>
          (let d = bitlen p - bitlen q in if 2 powi d \<le> a then d else d - 1))"

text \<open>
  The double nearest to \<open>a\<close> for \<open>0 < a\<close>, or \<open>None\<close> when the rounded value is beyond
  the largest double. A double has 53 significant bits and its last bit weighs at
  least \<open>2 powi (- 1074)\<close>; the largest double is \<open>(2 ^ 53 - 1) * 2 ^ 971\<close>.
\<close>

definition round_magnitude :: "rat \<Rightarrow> rat option" where
  "round_magnitude a =
     (let q = max (floor_log2 a - 52) (- 1074);
          m = round_half_even (a / 2 powi q)
      in if 971 < q \<or> (q = 971 \<and> 2 ^ 53 \<le> m) then None else Some (of_int m * 2 powi q))"

text \<open>The double that an exact result rounds to; an overflow gives an infinity.\<close>

definition round_double :: "rat \<Rightarrow> pyfloat" where
  "round_double x =
     (if x = 0 then Finite 0
      else if 0 < x then (case round_magnitude x of None \<Rightarrow> PInf | Some r \<Rightarrow> Finite r)
      else (case round_magnitude (- x) of None \<Rightarrow> NInf | Some r \<Rightarrow> Finite (- r)))"

text \<open>\<^verbatim>\<open>x + y\<close> on floats: the exact sum rounded; never an exception.\<close>

fun fadd :: "pyfloat \<Rightarrow> pyfloat \<Rightarrow> pyfloat" where
  "fadd (Finite a) (Finite b) = round_double (a + b)"
| "fadd NaN y = NaN"
| "fadd x NaN = NaN"
| "fadd PInf NInf = NaN"
| "fadd NInf PInf = NaN"
| "fadd PInf y = PInf"
| "fadd x PInf = PInf"
| "fadd NInf y = NInf"
| "fadd x NInf = NInf"

text \<open>\<^verbatim>\<open>x < y\<close> on floats: false as soon as one side is NaN.\<close>

fun fless :: "pyfloat \<Rightarrow> pyfloat \<Rightarrow> bool" where
  "fless (Finite a) (Finite b) = (a < b)"
| "fless NaN y = False"
| "fless x NaN = False"
| "fless x NInf = False"
| "fless PInf y = False"
| "fless NInf y = True"
| "fless x PInf = True"

subsection \<open>Python values\<close>

text \<open>
  The values \<^verbatim>\<open>response.json()\<close> can produce. Python's \<^verbatim>\<open>None\<close> is \<open>PyNone\<close>, so
  that the default argument \<^verbatim>\<open>access_token=None\<close> and a JSON \<^verbatim>\<open>null\<close> are the same
  value, as they are in Python. A \<^verbatim>\<open>dict\<close> is an association list read with
  \<open>map_of\<close>.
\<close>

datatype pyval =
    PyNone
  | PyBool bool
  | PyInt int
  | PyFloat pyfloat
  | PyStr string
  | PyList "pyval list"
  | PyDict "(string \<times> pyval) list"

text \<open>
  The exceptions, by class and message. \<open>ValueError\<close> is what \<^verbatim>\<open>load_credentials\<close>
  raises (line 28), \<open>Exception\<close> what the two exchanges raise on a status other than
  200 (lines 58 and 92); \<open>KeyError\<close>, \<open>TypeError\<close>, \<open>AttributeError\<close> and
  \<open>OverflowError\<close> come from subscripting and arithmetic on the parsed body;
  \<open>JSONDecodeError\<close> from \<^verbatim>\<open>response.json()\<close>; \<open>RequestException\<close> from \<^verbatim>\<open>requests\<close>
  itself; \<open>StreamlitSecretNotFoundError\<close> from \<^verbatim>\<open>st.secrets\<close> when there is no secrets
  file.
\<close>

datatype py_exception =
    ValueError string
  | Exception string
  | KeyError string
  | TypeError
  | AttributeError
  | OverflowError
  | JSONDecodeError
  | RequestException
  | StreamlitSecretNotFoundError

text \<open>
  What a handler of the caller catches. Every class above derives from
  \<^verbatim>\<open>Exception\<close>, so \<^verbatim>\<open>except Exception\<close> catches them all; \<^verbatim>\<open>except ValueError\<close>
  catches a \<open>ValueError\<close> and the JSON decoding error, which is one.
\<close>

datatype handler = Except_ValueError | Except_Exception

fun catches :: "handler \<Rightarrow> py_exception \<Rightarrow> bool" where
  "catches Except_Exception e = True"
| "catches Except_ValueError (ValueError m) = True"
| "catches Except_ValueError JSONDecodeError = True"
| "catches Except_ValueError e = False"

text \<open>\<^verbatim>\<open>v[key]\<close> with a string key: only a \<^verbatim>\<open>dict\<close> can be subscripted by a string.\<close>

fun py_getitem :: "pyval \<Rightarrow> string \<Rightarrow> py_exception + pyval" where
  "py_getitem (PyDict kvs) key =
     (case map_of kvs key of None \<Rightarrow> Inl (KeyError key) | Some v \<Rightarrow> Inr v)"
| "py_getitem v key = Inl TypeError"

text \<open>\<^verbatim>\<open>v.get(key, default)\<close>: a method of \<^verbatim>\<open>dict\<close> only.\<close>

fun py_get :: "pyval \<Rightarrow> string \<Rightarrow> pyval \<Rightarrow> py_exception + pyval" where
  "py_get (PyDict kvs) key dflt =
     (case map_of kvs key of None \<Rightarrow> Inr dflt | Some v \<Rightarrow> Inr v)"
| "py_get v key dflt = Inl AttributeError"

text \<open>
  The conversion of an \<^verbatim>\<open>int\<close> operand to a float: correctly rounded, and an
  \<open>OverflowError\<close> when the integer is beyond the doubles.
\<close>

definition int_to_float :: "int \<Rightarrow> py_exception + pyfloat" where
  "int_to_float i =
     (case round_double (of_int i) of
        Finite r \<Rightarrow> Inr (Finite r)
      | PInf \<Rightarrow> Inl OverflowError
      | NInf \<Rightarrow> Inl OverflowError
      | NaN \<Rightarrow> Inl OverflowError)"

text \<open>
  \<^verbatim>\<open>x + v\<close> for a float \<open>x\<close>: defined for \<^verbatim>\<open>int\<close>, \<^verbatim>\<open>float\<close> and \<^verbatim>\<open>bool\<close> operands; an
  \<^verbatim>\<open>int\<close> is first converted, a \<^verbatim>\<open>bool\<close> counts as 0 or 1.
\<close>

fun float_add :: "pyfloat \<Rightarrow> pyval \<Rightarrow> py_exception + pyfloat" where
  "float_add x (PyInt i) =
     (case int_to_float i of Inl e \<Rightarrow> Inl e | Inr y \<Rightarrow> Inr (fadd x y))"
| "float_add x (PyFloat y) = Inr (fadd x y)"
| "float_add x (PyBool b) = Inr (fadd x (Finite (if b then 1 else 0)))"
| "float_add x v = Inl TypeError"

subsection \<open>The world: secrets, session state, clock, network\<close>

text \<open>The dict of lines 22 to 26.\<close>

record credentials =
  client_id :: string
  client_secret :: string
  refresh_token :: string

text \<open>
  The dicts stored under \<^verbatim>\<open>access_token_data\<close> (lines 64 to 67) and
  \<^verbatim>\<open>streamer_token_data\<close> (lines 97 to 100). Both have the key \<^verbatim>\<open>expires_at\<close>; the
  field of the second is named \<open>streamer_expires_at\<close> to keep the two apart.
\<close>

record access_entry =
  access_token :: pyval
  expires_at :: pyfloat

record streamer_entry =
  token :: pyval
  streamer_expires_at :: pyfloat

text \<open>\<^verbatim>\<open>st.session_state\<close>: a slot is \<open>None\<close> when its key is not in the session state.\<close>

record session =
  access_token_data :: "access_entry option"
  streamer_token_data :: "streamer_entry option"

text \<open>
  The value interpolated into \<^verbatim>\<open>f"Bearer {access_token}"\<close> (line 83) is kept as it
  is; how Python prints a value that is not a string is not modelled.
\<close>

datatype header_value = Bearer pyval

datatype request =
    POST string "(string \<times> string) list"
  | GET string "(string \<times> header_value) list"

text \<open>What the code reads of a response: \<^verbatim>\<open>status_code\<close>, \<^verbatim>\<open>text\<close>, \<^verbatim>\<open>json()\<close>.\<close>

record response =
  status_code :: int
  resp_text :: string
  resp_json :: "py_exception + pyval"

text \<open>
  \<^verbatim>\<open>st.secrets\<close>: either no secrets file is found, or the keys and values of the one
  that is.
\<close>

datatype secrets_store = No_secrets_file | Secrets "string \<rightharpoonup> string"

text \<open>
  \<open>clock\<close> gives the successive readings of \<^verbatim>\<open>time.time()\<close>, which are finite, and
  \<open>clock_reads\<close> counts the readings so far; nothing else is assumed about the
  readings. \<open>upstream\<close> answers a request given the requests sent before it, with a
  response or with an exception of the HTTP library; \<open>sent\<close> is the log of the
  requests issued.
\<close>

record world =
  secrets :: secrets_store
  session_state :: session
  clock :: "nat \<Rightarrow> rat"
  clock_reads :: nat
  upstream :: "request list \<Rightarrow> request \<Rightarrow> py_exception + response"
  sent :: "request list"

definition time_time :: "world \<Rightarrow> pyfloat \<times> world" where
  "time_time w = (Finite (clock w (clock_reads w)), w\<lparr>clock_reads := Suc (clock_reads w)\<rparr>)"

definition send :: "request \<Rightarrow> world \<Rightarrow> (py_exception + response) \<times> world" where
  "send rq w = (upstream w (sent w) rq, w\<lparr>sent := sent w @ [rq]\<rparr>)"

subsection \<open>The functions of the module\<close>

definition missing_secrets :: string where
  "missing_secrets =
     ''Missing required secrets. Please set CLIENT_ID, CLIENT_SECRET, and REFRESH_TOKEN in Streamlit Cloud Secrets.''"

text \<open>
  \<^verbatim>\<open>st.secrets[key]\<close>: without a secrets file the lookup raises
  \<open>StreamlitSecretNotFoundError\<close>, with one a missing key raises \<open>KeyError\<close>.
\<close>

definition secret :: "world \<Rightarrow> string \<Rightarrow> py_exception + string" where
  "secret w key =
     (case secrets w of
        No_secrets_file \<Rightarrow> Inl StreamlitSecretNotFoundError
      | Secrets m \<Rightarrow> (case m key of None \<Rightarrow> Inl (KeyError key) | Some v \<Rightarrow> Inr v))"

text \<open>
  Lines 27 to 30: the handler. Only a \<open>KeyError\<close> becomes the \<open>ValueError\<close>; any
  other exception of the lookups passes through.
\<close>

fun except_KeyError :: "py_exception \<Rightarrow> py_exception" where
  "except_KeyError (KeyError k) = ValueError missing_secrets"
| "except_KeyError e = e"

text \<open>Lines 20 to 30. The three lookups are evaluated in the order of the dict.\<close>

definition load_credentials :: "world \<Rightarrow> py_exception + credentials" where
  "load_credentials w =
     (case secret w ''CLIENT_ID'' of
        Inl e \<Rightarrow> Inl (except_KeyError e)
      | Inr cid \<Rightarrow>
          (case secret w ''CLIENT_SECRET'' of
             Inl e \<Rightarrow> Inl (except_KeyError e)
           | Inr csec \<Rightarrow>
               (case secret w ''REFRESH_TOKEN'' of
                  Inl e \<Rightarrow> Inl (except_KeyError e)
                | Inr rtok \<Rightarrow>
                    Inr \<lparr>client_id = cid, client_secret = csec, refresh_token = rtok\<rparr>)))"

text \<open>Lines 45 to 55: the request of the refresh-token grant.\<close>

definition oauth_request :: "credentials \<Rightarrow> request" where
  "oauth_request c =
     POST ''https://api.tastytrade.com/oauth/token''
       [(''grant_type'', ''refresh_token''),
        (''refresh_token'', refresh_token c),
        (''client_id'', client_id c),
        (''client_secret'', client_secret c)]"

text \<open>
  Lines 36 to 41: the cached token when the call may use it. The clock is read only
  when the call is not forced and the slot is filled, as \<^verbatim>\<open>and\<close> evaluates.
  \<^verbatim>\<open>expires_at > time.time() + 60\<close> is \<open>time.time() + 60 < expires_at\<close>, the literal
  60 being the float 60.0 in the sum.
\<close>

definition cached_access_token :: "bool \<Rightarrow> world \<Rightarrow> pyval option \<times> world" where
  "cached_access_token force_refresh w =
     (if \<not> force_refresh then
        (case access_token_data (session_state w) of
           None \<Rightarrow> (None, w)
         | Some token_data \<Rightarrow>
             (case time_time w of
                (now, w1) \<Rightarrow>
                  if fless (fadd now (Finite 60)) (expires_at token_data)
                  then (Some (access_token token_data), w1)
                  else (None, w1)))
      else (None, w))"

text \<open>
  Lines 57 to 62: what is read of the response, the token and the validity window.
  Nothing here touches the world.
\<close>

definition read_token_response :: "response \<Rightarrow> py_exception + pyval \<times> pyval" where
  "read_token_response resp =
     (if status_code resp \<noteq> 200
      then Inl (Exception (''Token error: '' @ resp_text resp))
      else
        (case resp_json resp of
           Inl e \<Rightarrow> Inl e
         | Inr token_response \<Rightarrow>
             (case py_getitem token_response ''access_token'' of
                Inl e \<Rightarrow> Inl e
              | Inr tok \<Rightarrow>
                  (case py_get token_response ''expires_in'' (PyInt 900) of
                     Inl e \<Rightarrow> Inl e
                   | Inr expires_in \<Rightarrow> Inr (tok, expires_in)))))"

text \<open>
  Lines 64 to 69. The dict is built before it is assigned, so a \<open>TypeError\<close> or an
  \<open>OverflowError\<close> of the addition leaves the slot as it was, after the clock has
  been read.
\<close>

definition store_access_token :: "pyval \<Rightarrow> pyval \<Rightarrow> world \<Rightarrow> (py_exception + pyval) \<times> world" where
  "store_access_token tok expires_in w =
     (case time_time w of
        (now, w1) \<Rightarrow>
          (case float_add now expires_in of
             Inl e \<Rightarrow> (Inl e, w1)
           | Inr t \<Rightarrow>
               (Inr tok,
                w1\<lparr>session_state := (session_state w1)
                  \<lparr>access_token_data := Some \<lparr>access_token = tok, expires_at = t\<rparr>\<rparr>\<rparr>)))"

text \<open>Lines 43 to 69: the exchange.\<close>

definition refresh_access_token :: "world \<Rightarrow> (py_exception + pyval) \<times> world" where
  "refresh_access_token w =
     (case load_credentials w of
        Inl e \<Rightarrow> (Inl e, w)
      | Inr creds \<Rightarrow>
          (case send (oauth_request creds) w of
             (Inl e, w1) \<Rightarrow> (Inl e, w1)
           | (Inr resp, w1) \<Rightarrow>
               (case read_token_response resp of
                  Inl e \<Rightarrow> (Inl e, w1)
                | Inr (tok, expires_in) \<Rightarrow> store_access_token tok expires_in w1)))"

text \<open>Lines 34 to 69.\<close>

definition get_access_token :: "bool \<Rightarrow> world \<Rightarrow> (py_exception + pyval) \<times> world" where
  "get_access_token force_refresh w =
     (case cached_access_token force_refresh w of
        (Some tok, w1) \<Rightarrow> (Inr tok, w1)
      | (None, w1) \<Rightarrow> refresh_access_token w1)"

text \<open>Lines 74 to 77.\<close>

definition cached_streamer_token :: "bool \<Rightarrow> world \<Rightarrow> pyval option \<times> world" where
  "cached_streamer_token force_refresh w =
     (if \<not> force_refresh then
        (case streamer_token_data (session_state w) of
           None \<Rightarrow> (None, w)
         | Some token_data \<Rightarrow>
             (case time_time w of
                (now, w1) \<Rightarrow>
                  if fless (fadd now (Finite 300)) (streamer_expires_at token_data)
                  then (Some (token token_data), w1)
                  else (None, w1)))
      else (None, w))"

text \<open>Lines 79 and 80: without an access token, a non-forced \<^verbatim>\<open>get_access_token()\<close>.\<close>

definition resolve_access_token :: "pyval \<Rightarrow> world \<Rightarrow> (py_exception + pyval) \<times> world" where
  "resolve_access_token tok w =
     (if tok = PyNone then get_access_token False w else (Inr tok, w))"

text \<open>Lines 82 to 89.\<close>

definition quote_token_request :: "pyval \<Rightarrow> request" where
  "quote_token_request tok =
     GET ''https://api.tastyworks.com/api-quote-tokens'' [(''Authorization'', Bearer tok)]"

text \<open>Lines 91 to 95: what is read of the response, the nested token.\<close>

definition read_quote_response :: "response \<Rightarrow> py_exception + pyval" where
  "read_quote_response resp =
     (if status_code resp \<noteq> 200
      then Inl (Exception (''Streamer token error: '' @ resp_text resp))
      else
        (case resp_json resp of
           Inl e \<Rightarrow> Inl e
         | Inr result \<Rightarrow>
             (case py_getitem result ''data'' of
                Inl e \<Rightarrow> Inl e
              | Inr d \<Rightarrow> py_getitem d ''token'')))"

text \<open>Lines 97 to 102. \<^verbatim>\<open>20 * 3600\<close> is 72000.\<close>

definition store_streamer_token :: "pyval \<Rightarrow> world \<Rightarrow> (py_exception + pyval) \<times> world" where
  "store_streamer_token streamer_token w =
     (case time_time w of
        (now, w1) \<Rightarrow>
          (Inr streamer_token,
           w1\<lparr>session_state := (session_state w1)
             \<lparr>streamer_token_data :=
                Some \<lparr>token = streamer_token,
                      streamer_expires_at = fadd now (Finite (20 * 3600))\<rparr>\<rparr>\<rparr>))"

text \<open>Lines 79 to 102: the exchange.\<close>

definition refresh_streamer_token :: "pyval \<Rightarrow> world \<Rightarrow> (py_exception + pyval) \<times> world" where
  "refresh_streamer_token tok0 w =
     (case resolve_access_token tok0 w of
        (Inl e, w1) \<Rightarrow> (Inl e, w1)
      | (Inr tok, w1) \<Rightarrow>
          (case send (quote_token_request tok) w1 of
             (Inl e, w2) \<Rightarrow> (Inl e, w2)
           | (Inr resp, w2) \<Rightarrow>
               (case read_quote_response resp of
                  Inl e \<Rightarrow> (Inl e, w2)
                | Inr streamer_token \<Rightarrow> store_streamer_token streamer_token w2)))"

text \<open>Lines 72 to 102.\<close>

definition get_streamer_token ::
  "pyval \<Rightarrow> bool \<Rightarrow> world \<Rightarrow> (py_exception + pyval) \<times> world" where
  "get_streamer_token tok0 force_refresh w =
     (case cached_streamer_token force_refresh w of
        (Some tok, w1) \<Rightarrow> (Inr tok, w1)
      | (None, w1) \<Rightarrow> refresh_streamer_token tok0 w1)"

text \<open>Lines 106 to 115.\<close>

definition ensure_streamer_token :: "world \<Rightarrow> (py_exception + pyval) \<times> world" where
  "ensure_streamer_token w = get_streamer_token PyNone False w"

subsection \<open>Vocabulary of the statements\<close>

text \<open>
  The tests of lines 36 to 40 and of lines 74 to 76 as predicates of the world: the
  slot is filled and its expiry lies beyond the next clock reading plus the margin.
\<close>

definition access_fresh :: "world \<Rightarrow> bool" where
  "access_fresh w =
     (case access_token_data (session_state w) of
        None \<Rightarrow> False
      | Some e \<Rightarrow> fless (fadd (Finite (clock w (clock_reads w))) (Finite 60)) (expires_at e))"

definition streamer_fresh :: "world \<Rightarrow> bool" where
  "streamer_fresh w =
     (case streamer_token_data (session_state w) of
        None \<Rightarrow> False
      | Some e \<Rightarrow>
          fless (fadd (Finite (clock w (clock_reads w))) (Finite 300)) (streamer_expires_at e))"

text \<open>The world with one slot of the session state replaced.\<close>

definition with_access_slot :: "access_entry option \<Rightarrow> world \<Rightarrow> world" where
  "with_access_slot x w = w\<lparr>session_state := (session_state w)\<lparr>access_token_data := x\<rparr>\<rparr>"

definition with_streamer_slot :: "streamer_entry option \<Rightarrow> world \<Rightarrow> world" where
  "with_streamer_slot x w = w\<lparr>session_state := (session_state w)\<lparr>streamer_token_data := x\<rparr>\<rparr>"

subsection \<open>Concrete worlds\<close>

text \<open>
  The scenario of the specification: the token endpoint answers 200 with
  \<^verbatim>\<open>{"access_token":"AT1","expires_in":900}\<close> and the quote-token endpoint answers 200
  with \<^verbatim>\<open>{"data":{"token":"ST1"}}\<close>.
\<close>

definition token_body :: pyval where
  "token_body = PyDict [(''access_token'', PyStr ''AT1''), (''expires_in'', PyInt 900)]"

definition quote_body :: pyval where
  "quote_body = PyDict [(''data'', PyDict [(''token'', PyStr ''ST1'')])]"

definition ok_response :: "pyval \<Rightarrow> response" where
  "ok_response body = \<lparr>status_code = 200, resp_text = ''ok'', resp_json = Inr body\<rparr>"

definition healthy_upstream :: "request list \<Rightarrow> request \<Rightarrow> py_exception + response" where
  "healthy_upstream history rq =
     (case rq of
        POST url form \<Rightarrow> Inr (ok_response token_body)
      | GET url headers \<Rightarrow> Inr (ok_response quote_body))"

text \<open>The double nearest to one tenth, which is what the JSON number \<^verbatim>\<open>0.1\<close> parses to.\<close>

definition tenth :: pyfloat where
  "tenth = Finite (3602879701896397 / 36028797018963968)"


text \<open>An upstream that answers every request with the given response.\<close>

definition constant_upstream ::
  "response \<Rightarrow> request list \<Rightarrow> request \<Rightarrow> py_exception + response" where
  "constant_upstream resp history rq = Inr resp"

definition unavailable :: response where
  "unavailable =
     \<lparr>status_code = 503, resp_text = ''upstream unavailable'', resp_json = Inl JSONDecodeError\<rparr>"

definition configured_secrets :: secrets_store where
  "configured_secrets =
     Secrets [''CLIENT_ID'' \<mapsto> ''c1'', ''CLIENT_SECRET'' \<mapsto> ''s1'', ''REFRESH_TOKEN'' \<mapsto> ''r1'']"

text \<open>A secrets file without \<^verbatim>\<open>CLIENT_SECRET\<close>, and an empty secrets file.\<close>

definition incomplete_secrets :: secrets_store where
  "incomplete_secrets = Secrets [''CLIENT_ID'' \<mapsto> ''c1'', ''REFRESH_TOKEN'' \<mapsto> ''r1'']"

definition no_secrets :: secrets_store where
  "no_secrets = Secrets Map.empty"

definition configured_credentials :: credentials where
  "configured_credentials = \<lparr>client_id = ''c1'', client_secret = ''s1'', refresh_token = ''r1''\<rparr>"

text \<open>
  A world whose clock reads 1000, 1001, 1002, ... and that has sent nothing yet,
  with the given secrets, upstream and session state.
\<close>

definition example_world ::
  "secrets_store \<Rightarrow> (request list \<Rightarrow> request \<Rightarrow> py_exception + response) \<Rightarrow>
   session \<Rightarrow> world" where
  "example_world secs up ss =
     \<lparr>secrets = secs, session_state = ss, clock = (\<lambda>n. 1000 + of_nat n), clock_reads = 0,
      upstream = up, sent = []\<rparr>"

definition cold_session :: session where
  "cold_session = \<lparr>access_token_data = None, streamer_token_data = None\<rparr>"

text \<open>A session state whose two entries expire at the given instants.\<close>

definition warm_session :: "rat \<Rightarrow> rat \<Rightarrow> session" where
  "warm_session ta ts =
     \<lparr>access_token_data = Some \<lparr>access_token = PyStr ''AT0'', expires_at = Finite ta\<rparr>,
      streamer_token_data =
        Some \<lparr>token = PyStr ''ST0'', streamer_expires_at = Finite ts\<rparr>\<rparr>"

section \<open>Auxiliary facts\<close>

subsection \<open>Integers that are doubles\<close>

lemma round_half_even_of_int [simp]: "round_half_even (of_int k) = k"
  by (simp add: round_half_even_def)

lemma floor_log2_of_int:
  assumes "0 < n"
  shows "floor_log2 (of_int n) = bitlen n - 1"
proof -
  have "(2::int) ^ nat (bitlen n - 1) \<le> n"
    using bitlen_bounds [OF assms] by simp
  then have "(of_int ((2::int) ^ nat (bitlen n - 1)) :: rat) \<le> of_int n"
    by (simp only: of_int_le_iff)
  moreover have "1 \<le> bitlen n"
    using assms by (simp add: bitlen_alt_def)
  ultimately have "(2::rat) powi (bitlen n - 1) \<le> of_int n"
    by (simp add: power_int_def)
  moreover have "bitlen 1 = 1" by (simp add: bitlen_alt_def)
  ultimately show ?thesis
    by (simp add: floor_log2_def)
qed

lemma round_magnitude_of_int:
  assumes "0 < n" and "n < 2 ^ 53"
  shows "round_magnitude (of_int n) = Some (of_int n)"
proof -
  define k where "k = nat (53 - bitlen n)"
  have b1: "1 \<le> bitlen n" using assms(1) by (simp add: bitlen_alt_def)
  have "(2::int) ^ nat (bitlen n - 1) \<le> n" using bitlen_bounds [OF assms(1)] by simp
  with assms(2) have "(2::int) ^ nat (bitlen n - 1) < 2 ^ 53" by linarith
  then have "nat (bitlen n - 1) < 53"
    using power_less_imp_less_exp [of "2::int" "nat (bitlen n - 1)" 53] by simp
  with b1 have q: "max (floor_log2 (of_int n) - 52) (- 1074) = - int k"
    by (simp add: floor_log2_of_int [OF assms(1)] k_def)
  have p: "(2::rat) powi (- int k) = 1 / 2 ^ k"
    by (simp add: power_int_minus field_simps)
  have "(of_int n :: rat) / 2 powi (- int k) = of_int (n * 2 ^ k)"
    by (simp add: p)
  then have m: "round_half_even (of_int n / 2 powi (- int k)) = n * 2 ^ k"
    by (simp only: round_half_even_of_int)
  have r: "(of_int (n * 2 ^ k) :: rat) * 2 powi (- int k) = of_int n"
    by (simp add: p)
  show ?thesis
    unfolding round_magnitude_def Let_def q m r by simp
qed

lemma round_double_of_int:
  assumes "\<bar>n\<bar> < 2 ^ 53"
  shows "round_double (of_int n) = Finite (of_int n)"
proof -
  consider "n = 0" | "0 < n" | "n < 0" by linarith
  then show ?thesis
  proof cases
    case 1
    then show ?thesis by (simp add: round_double_def)
  next
    case 2
    with assms have "round_magnitude (of_int n) = Some (of_int n)"
      by (intro round_magnitude_of_int) simp_all
    with 2 show ?thesis by (simp add: round_double_def)
  next
    case 3
    with assms have "round_magnitude (of_int (- n)) = Some (of_int (- n))"
      by (intro round_magnitude_of_int) simp_all
    with 3 show ?thesis by (simp add: round_double_def)
  qed
qed

lemma int_to_float_exact:
  "\<bar>n\<bar> < 2 ^ 53 \<Longrightarrow> int_to_float n = Inr (Finite (of_int n))"
  by (simp add: int_to_float_def round_double_of_int)



lemma tenth_is_double: "round_double (1 / 10) = tenth"
  unfolding tenth_def by code_simp


subsection \<open>Rounding stays within a quarter below \<open>2 ^ 52\<close>\<close>

lemma floor_log2_le:
  assumes "0 < a"
  shows "2 powi (floor_log2 a) \<le> a"
proof -
  obtain p q where pq: "quotient_of a = (p, q)" by (cases "quotient_of a")
  have q: "0 < q" using pq by (rule quotient_of_denom_pos)
  have a: "a = of_int p / of_int q" using pq by (rule quotient_of_div)
  have p: "0 < p"
    using assms q unfolding a by (simp add: zero_less_divide_iff)
  let ?d = "bitlen p - bitlen q"
  have bp: "1 \<le> bitlen p" using p by (simp add: bitlen_alt_def)
  have bq: "0 \<le> bitlen q" by (rule bitlen_nonneg)
  have "(2::int) ^ nat (bitlen p - 1) \<le> p" using bitlen_bounds [OF p] by simp
  then have "(of_int ((2::int) ^ nat (bitlen p - 1)) :: rat) \<le> of_int p"
    by (simp only: of_int_le_iff)
  then have lp: "(2::rat) powi (bitlen p - 1) \<le> of_int p"
    using bp by (simp add: power_int_def)
  have "q < 2 ^ nat (bitlen q)" using bitlen_bounds [OF q] by simp
  then have "(of_int q :: rat) < of_int ((2::int) ^ nat (bitlen q))"
    by (simp only: of_int_less_iff)
  then have uq: "(of_int q :: rat) \<le> 2 powi (bitlen q)"
    using bq by (simp add: power_int_def)
  have "(2::rat) powi (?d - 1) = 2 powi (bitlen p - 1) / 2 powi (bitlen q)"
    using power_int_diff [of "2::rat" "bitlen p - 1" "bitlen q"] by (simp add: algebra_simps)
  also have "\<dots> \<le> of_int p / 2 powi (bitlen q)"
    using lp by (simp add: divide_right_mono)
  also have "\<dots> \<le> of_int p / of_int q"
    using uq p q by (intro divide_left_mono) simp_all
  finally have low: "(2::rat) powi (?d - 1) \<le> a" by (simp add: a)
  show ?thesis
    using low by (simp add: floor_log2_def pq Let_def)
qed

lemma round_half_even_near: "\<bar>of_int (round_half_even x) - x\<bar> \<le> 1 / 2"
proof -
  have "of_int \<lfloor>x\<rfloor> \<le> x" "x < of_int \<lfloor>x\<rfloor> + 1" by linarith+
  then show ?thesis
    by (auto simp add: round_half_even_def Let_def abs_le_iff)
qed

lemma round_magnitude_near:
  assumes "0 < a" and "a < 2 ^ 52"
  shows "\<exists>r. round_magnitude a = Some r \<and> \<bar>r - a\<bar> \<le> 1 / 4"
proof -
  define q where "q = max (floor_log2 a - 52) (- 1074)"
  define m where "m = round_half_even (a / 2 powi q)"
  have "(2::rat) powi (floor_log2 a) < 2 powi 52"
    using floor_log2_le [OF assms(1)] assms(2) by simp
  then have "floor_log2 a < 52"
    by (intro power_int_le_imp_less_exp [of "2::rat"]) simp_all
  then have q1: "q \<le> - 1" by (simp add: q_def)
  have pos: "0 < (2::rat) powi q" by (simp add: zero_less_power_int)
  have "(2::rat) powi q \<le> 2 powi (- 1)"
    using q1 by (intro power_int_increasing) simp_all
  then have small: "(2::rat) powi q \<le> 1 / 2" by (simp add: power_int_minus)
  have "of_int m * 2 powi q - a = (of_int m - a / 2 powi q) * 2 powi q"
    using pos by (simp add: field_simps)
  then have "\<bar>of_int m * 2 powi q - a\<bar> = \<bar>of_int m - a / 2 powi q\<bar> * 2 powi q"
    using pos by (simp add: abs_mult)
  also have "\<dots> \<le> (1 / 2) * (1 / 2)"
    using round_half_even_near [of "a / 2 powi q"] small pos
    unfolding m_def by (intro mult_mono) simp_all
  finally have near: "\<bar>of_int m * 2 powi q - a\<bar> \<le> 1 / 4" by simp
  have "round_magnitude a = Some (of_int m * 2 powi q)"
    using q1 unfolding round_magnitude_def Let_def q_def [symmetric] m_def [symmetric]
    by simp
  with near show ?thesis by simp
qed

lemma round_double_near:
  assumes "0 \<le> x" and "x < 2 ^ 52"
  shows "\<exists>r. round_double x = Finite r \<and> \<bar>r - x\<bar> \<le> 1 / 4"
proof (cases "x = 0")
  case True
  then show ?thesis by (simp add: round_double_def)
next
  case False
  with assms(1) have "0 < x" by simp
  from round_magnitude_near [OF this assms(2)] \<open>0 < x\<close> show ?thesis
    by (auto simp add: round_double_def)
qed

lemma round_double_numeral:
  "numeral k < (2::int) ^ 53 \<Longrightarrow> round_double (numeral k) = Finite (numeral k)"
  using round_double_of_int [of "numeral k"] by simp

lemma fadd_near:
  assumes "0 \<le> a + b" and "a + b < 2 ^ 52"
  shows "\<exists>r. fadd (Finite a) (Finite b) = Finite r \<and> \<bar>r - (a + b)\<bar> \<le> 1 / 4"
  using round_double_near [OF assms] by simp

subsection \<open>What each step changes\<close>

lemma load_credentials_cong:
  assumes "secrets w' = secrets w"
  shows "load_credentials w' = load_credentials w"
proof -
  have "secret w' = secret w"
    by (rule ext) (simp add: secret_def assms)
  then show ?thesis
    unfolding load_credentials_def by (simp only:)
qed

lemma store_access_token_frame:
  "secrets (snd (store_access_token tok x w)) = secrets w \<and>
   clock (snd (store_access_token tok x w)) = clock w \<and>
   upstream (snd (store_access_token tok x w)) = upstream w \<and>
   sent (snd (store_access_token tok x w)) = sent w \<and>
   clock_reads (snd (store_access_token tok x w)) = Suc (clock_reads w) \<and>
   streamer_token_data (session_state (snd (store_access_token tok x w))) =
     streamer_token_data (session_state w)"
  by (simp add: store_access_token_def time_time_def split: sum.splits)

lemma store_access_token_failure:
  "fst (store_access_token tok x w) = Inl e \<Longrightarrow>
   session_state (snd (store_access_token tok x w)) = session_state w"
  by (simp add: store_access_token_def time_time_def split: sum.splits)

lemma store_streamer_token_frame:
  "secrets (snd (store_streamer_token tok w)) = secrets w \<and>
   clock (snd (store_streamer_token tok w)) = clock w \<and>
   upstream (snd (store_streamer_token tok w)) = upstream w \<and>
   sent (snd (store_streamer_token tok w)) = sent w \<and>
   clock_reads (snd (store_streamer_token tok w)) = Suc (clock_reads w) \<and>
   access_token_data (session_state (snd (store_streamer_token tok w))) =
     access_token_data (session_state w)"
  by (simp add: store_streamer_token_def time_time_def)

lemma refresh_access_token_frame:
  "secrets (snd (refresh_access_token w)) = secrets w \<and>
   clock (snd (refresh_access_token w)) = clock w \<and>
   upstream (snd (refresh_access_token w)) = upstream w \<and>
   streamer_token_data (session_state (snd (refresh_access_token w))) =
     streamer_token_data (session_state w)"
  by (simp add: refresh_access_token_def send_def store_access_token_frame
      split: sum.splits prod.splits)

lemma refresh_access_token_sent:
  "sent (snd (refresh_access_token w)) =
     (case load_credentials w of Inl e \<Rightarrow> sent w | Inr c \<Rightarrow> sent w @ [oauth_request c])"
  by (simp add: refresh_access_token_def send_def store_access_token_frame
      split: sum.splits prod.splits)

lemma refresh_access_token_failure:
  "fst (refresh_access_token w) = Inl e \<Longrightarrow>
     session_state (snd (refresh_access_token w)) = session_state w"
  by (auto simp add: refresh_access_token_def send_def
      dest: store_access_token_failure split: sum.splits prod.splits)

lemma cached_access_token_world:
  "snd (cached_access_token f w) =
     w\<lparr>clock_reads := (if \<not> f \<and> access_token_data (session_state w) \<noteq> None
                        then Suc (clock_reads w) else clock_reads w)\<rparr>"
  by (simp add: cached_access_token_def time_time_def split: option.splits)

lemma cached_streamer_token_world:
  "snd (cached_streamer_token f w) =
     w\<lparr>clock_reads := (if \<not> f \<and> streamer_token_data (session_state w) \<noteq> None
                        then Suc (clock_reads w) else clock_reads w)\<rparr>"
  by (simp add: cached_streamer_token_def time_time_def split: option.splits)

lemma get_access_token_cases:
  "get_access_token f w =
     (case fst (cached_access_token f w) of
        Some tok \<Rightarrow> (Inr tok, snd (cached_access_token f w))
      | None \<Rightarrow> refresh_access_token (snd (cached_access_token f w)))"
  by (simp add: get_access_token_def split: prod.splits option.splits)

lemma get_streamer_token_cases:
  "get_streamer_token tok0 f w =
     (case fst (cached_streamer_token f w) of
        Some tok \<Rightarrow> (Inr tok, snd (cached_streamer_token f w))
      | None \<Rightarrow> refresh_streamer_token tok0 (snd (cached_streamer_token f w)))"
  by (simp add: get_streamer_token_def split: prod.splits option.splits)

lemma get_access_token_frame:
  "secrets (snd (get_access_token f w)) = secrets w \<and>
   clock (snd (get_access_token f w)) = clock w \<and>
   upstream (snd (get_access_token f w)) = upstream w \<and>
   streamer_token_data (session_state (snd (get_access_token f w))) =
     streamer_token_data (session_state w)"
  by (simp add: get_access_token_cases cached_access_token_world refresh_access_token_frame
      split: option.splits)

lemma get_access_token_sent:
  "sent (snd (get_access_token f w)) = sent w \<or>
   (\<exists>c. load_credentials w = Inr c \<and>
        sent (snd (get_access_token f w)) = sent w @ [oauth_request c])"
proof (cases "fst (cached_access_token f w)")
  case (Some tok)
  then show ?thesis
    by (simp add: get_access_token_cases cached_access_token_world)
next
  case None
  have "load_credentials (snd (cached_access_token f w)) = load_credentials w"
    by (rule load_credentials_cong) (simp add: cached_access_token_world)
  with None show ?thesis
    by (cases "load_credentials w")
       (simp_all add: get_access_token_cases refresh_access_token_sent cached_access_token_world)
qed

lemma get_access_token_failure:
  "fst (get_access_token f w) = Inl e \<Longrightarrow>
     session_state (snd (get_access_token f w)) = session_state w"
proof (cases "fst (cached_access_token f w)")
  case (Some tok)
  assume "fst (get_access_token f w) = Inl e"
  with Some show ?thesis by (simp add: get_access_token_cases)
next
  case None
  assume "fst (get_access_token f w) = Inl e"
  with None have "fst (refresh_access_token (snd (cached_access_token f w))) = Inl e"
    by (simp add: get_access_token_cases)
  from refresh_access_token_failure [OF this] None show ?thesis
    by (simp add: get_access_token_cases cached_access_token_world)
qed

lemma get_access_token_fresh:
  "access_token_data (session_state w) = Some e \<Longrightarrow>
   fless (fadd (Finite (clock w (clock_reads w))) (Finite 60)) (expires_at e) \<Longrightarrow>
   get_access_token False w = (Inr (access_token e), w\<lparr>clock_reads := Suc (clock_reads w)\<rparr>)"
  by (simp add: get_access_token_def cached_access_token_def time_time_def)

lemma get_access_token_stale:
  "access_token_data (session_state w) = Some e \<Longrightarrow>
   \<not> fless (fadd (Finite (clock w (clock_reads w))) (Finite 60)) (expires_at e) \<Longrightarrow>
   get_access_token False w = refresh_access_token (w\<lparr>clock_reads := Suc (clock_reads w)\<rparr>)"
  by (simp add: get_access_token_def cached_access_token_def time_time_def)

lemma get_access_token_absent:
  "access_token_data (session_state w) = None \<Longrightarrow>
   get_access_token f w = refresh_access_token w"
  by (simp add: get_access_token_def cached_access_token_def)

lemma get_access_token_forced:
  "get_access_token True w = refresh_access_token w"
  by (simp add: get_access_token_def cached_access_token_def)

lemma get_streamer_token_fresh:
  "streamer_token_data (session_state w) = Some e \<Longrightarrow>
   fless (fadd (Finite (clock w (clock_reads w))) (Finite 300)) (streamer_expires_at e) \<Longrightarrow>
   get_streamer_token tok0 False w = (Inr (token e), w\<lparr>clock_reads := Suc (clock_reads w)\<rparr>)"
  by (simp add: get_streamer_token_def cached_streamer_token_def time_time_def)

lemma get_streamer_token_stale:
  "streamer_token_data (session_state w) = Some e \<Longrightarrow>
   \<not> fless (fadd (Finite (clock w (clock_reads w))) (Finite 300)) (streamer_expires_at e) \<Longrightarrow>
   get_streamer_token tok0 False w =
     refresh_streamer_token tok0 (w\<lparr>clock_reads := Suc (clock_reads w)\<rparr>)"
  by (simp add: get_streamer_token_def cached_streamer_token_def time_time_def)

lemma get_streamer_token_absent:
  "streamer_token_data (session_state w) = None \<Longrightarrow>
   get_streamer_token tok0 f w = refresh_streamer_token tok0 w"
  by (simp add: get_streamer_token_def cached_streamer_token_def)

lemma get_streamer_token_forced:
  "get_streamer_token tok0 True w = refresh_streamer_token tok0 w"
  by (simp add: get_streamer_token_def cached_streamer_token_def)

lemma resolve_access_token_frame:
  "secrets (snd (resolve_access_token tok w)) = secrets w \<and>
   clock (snd (resolve_access_token tok w)) = clock w \<and>
   upstream (snd (resolve_access_token tok w)) = upstream w \<and>
   streamer_token_data (session_state (snd (resolve_access_token tok w))) =
     streamer_token_data (session_state w)"
  by (simp add: resolve_access_token_def get_access_token_frame)

lemma resolve_access_token_supplied:
  "tok \<noteq> PyNone \<Longrightarrow> resolve_access_token tok w = (Inr tok, w)"
  by (simp add: resolve_access_token_def)

lemma refresh_access_token_no_credentials:
  "load_credentials w = Inl e \<Longrightarrow> refresh_access_token w = (Inl e, w)"
  by (simp add: refresh_access_token_def)

lemma refresh_access_token_step:
  "load_credentials w = Inr c \<Longrightarrow> upstream w (sent w) (oauth_request c) = Inr r \<Longrightarrow>
   refresh_access_token w =
     (case read_token_response r of
        Inl e \<Rightarrow> (Inl e, w\<lparr>sent := sent w @ [oauth_request c]\<rparr>)
      | Inr (tok, x) \<Rightarrow> store_access_token tok x (w\<lparr>sent := sent w @ [oauth_request c]\<rparr>))"
  by (simp add: refresh_access_token_def send_def)

lemma resolve_access_token_sent:
  "sent (snd (resolve_access_token tok w)) = sent w \<or>
   (\<exists>c. load_credentials w = Inr c \<and>
        sent (snd (resolve_access_token tok w)) = sent w @ [oauth_request c])"
  using get_access_token_sent [of False w] by (simp add: resolve_access_token_def)

lemma refresh_streamer_token_unresolved:
  "resolve_access_token tok0 w = (Inl e, w1) \<Longrightarrow> refresh_streamer_token tok0 w = (Inl e, w1)"
  by (simp add: refresh_streamer_token_def)

lemma refresh_streamer_token_step:
  assumes "resolve_access_token tok0 w = (Inr tok, w1)"
    and "upstream w (sent w1) (quote_token_request tok) = Inr r"
  shows "refresh_streamer_token tok0 w =
     (case read_quote_response r of
        Inl e \<Rightarrow> (Inl e, w1\<lparr>sent := sent w1 @ [quote_token_request tok]\<rparr>)
      | Inr st \<Rightarrow> store_streamer_token st (w1\<lparr>sent := sent w1 @ [quote_token_request tok]\<rparr>))"
proof -
  have "upstream w1 = upstream w"
    using resolve_access_token_frame [of tok0 w] assms(1) by simp
  with assms show ?thesis
    by (simp add: refresh_streamer_token_def send_def)
qed

lemma refresh_streamer_token_sent:
  "resolve_access_token tok0 w = (Inr tok, w1) \<Longrightarrow>
   sent (snd (refresh_streamer_token tok0 w)) = sent w1 @ [quote_token_request tok]"
  by (simp add: refresh_streamer_token_def send_def store_streamer_token_frame
      split: sum.splits prod.splits)

lemma refresh_access_token_no_silent_success:
  "fst (refresh_access_token w) = Inr tok \<Longrightarrow> sent (snd (refresh_access_token w)) \<noteq> sent w"
  by (cases "load_credentials w")
     (simp_all add: refresh_access_token_sent refresh_access_token_no_credentials)

lemma refresh_streamer_token_no_silent_success:
  assumes "fst (refresh_streamer_token tok0 w) = Inr st"
  shows "sent (snd (refresh_streamer_token tok0 w)) \<noteq> sent w"
proof (cases "resolve_access_token tok0 w")
  case (Pair res w1)
  show ?thesis
  proof (cases res)
    case (Inl e)
    with Pair assms show ?thesis by (simp add: refresh_streamer_token_unresolved)
  next
    case (Inr tok)
    with Pair have s: "sent (snd (refresh_streamer_token tok0 w)) = sent w1 @ [quote_token_request tok]"
      by (simp add: refresh_streamer_token_sent)
    from resolve_access_token_sent [of tok0 w] Pair
    have "sent w1 = sent w \<or> (\<exists>c. sent w1 = sent w @ [oauth_request c])" by auto
    with s show ?thesis by auto
  qed
qed

subsection \<open>The refresh path and a status other than 200\<close>

lemma get_access_token_refresh:
  "f \<or> \<not> access_fresh w \<Longrightarrow>
   get_access_token f w = refresh_access_token (snd (cached_access_token f w))"
  by (auto simp add: get_access_token_def cached_access_token_def access_fresh_def time_time_def
      split: option.splits)

lemma get_streamer_token_refresh:
  "f \<or> \<not> streamer_fresh w \<Longrightarrow>
   get_streamer_token tok0 f w = refresh_streamer_token tok0 (snd (cached_streamer_token f w))"
  by (auto simp add: get_streamer_token_def cached_streamer_token_def streamer_fresh_def
      time_time_def split: option.splits)

lemma read_token_response_non_success:
  "status_code r \<noteq> 200 \<Longrightarrow>
   read_token_response r = Inl (Exception (''Token error: '' @ resp_text r))"
  by (simp add: read_token_response_def)

lemma read_quote_response_non_success:
  "status_code r \<noteq> 200 \<Longrightarrow>
   read_quote_response r = Inl (Exception (''Streamer token error: '' @ resp_text r))"
  by (simp add: read_quote_response_def)

lemma access_non_success:
  assumes "f \<or> \<not> access_fresh w"
    and "load_credentials w = Inr c"
    and "upstream w (sent w) (oauth_request c) = Inr r"
    and "status_code r \<noteq> 200"
  shows "get_access_token f w =
     (Inl (Exception (''Token error: '' @ resp_text r)),
      (snd (cached_access_token f w))\<lparr>sent := sent w @ [oauth_request c]\<rparr>)"
proof -
  let ?w = "snd (cached_access_token f w)"
  have "load_credentials ?w = Inr c"
    using assms(2) load_credentials_cong [of ?w w] by (simp add: cached_access_token_world)
  moreover have "upstream ?w (sent ?w) (oauth_request c) = Inr r"
    using assms(3) by (simp add: cached_access_token_world)
  ultimately have "refresh_access_token ?w =
      (Inl (Exception (''Token error: '' @ resp_text r)),
       ?w\<lparr>sent := sent ?w @ [oauth_request c]\<rparr>)"
    using assms(4)
    by (simp add: refresh_access_token_step read_token_response_non_success)
  then show ?thesis
    using assms(1) by (simp add: get_access_token_refresh cached_access_token_world)
qed

lemma streamer_non_success:
  assumes "f \<or> \<not> streamer_fresh w"
    and "resolve_access_token tok0 (snd (cached_streamer_token f w)) = (Inr tok, w1)"
    and "upstream w (sent w1) (quote_token_request tok) = Inr r"
    and "status_code r \<noteq> 200"
  shows "get_streamer_token tok0 f w =
     (Inl (Exception (''Streamer token error: '' @ resp_text r)),
      w1\<lparr>sent := sent w1 @ [quote_token_request tok]\<rparr>)"
proof -
  let ?w = "snd (cached_streamer_token f w)"
  have "upstream ?w (sent w1) (quote_token_request tok) = Inr r"
    using assms(3) by (simp add: cached_streamer_token_world)
  with assms(2) have "refresh_streamer_token tok0 ?w =
      (Inl (Exception (''Streamer token error: '' @ resp_text r)),
       w1\<lparr>sent := sent w1 @ [quote_token_request tok]\<rparr>)"
    using assms(4)
    by (simp add: refresh_streamer_token_step read_quote_response_non_success)
  then show ?thesis
    using assms(1) by (simp add: get_streamer_token_refresh)
qed

lemma resolved_streamer_slot:
  assumes "resolve_access_token tok0 (snd (cached_streamer_token f w)) = (res, w1)"
  shows "streamer_token_data (session_state w1) = streamer_token_data (session_state w)"
  using resolve_access_token_frame [of tok0 "snd (cached_streamer_token f w)"] assms
  by (simp add: cached_streamer_token_world)

subsection \<open>Independence of the other slot\<close>

lemma load_credentials_streamer_slot:
  "load_credentials (with_streamer_slot x w) = load_credentials w"
  by (rule load_credentials_cong) (simp add: with_streamer_slot_def)

lemma load_credentials_access_slot:
  "load_credentials (with_access_slot x w) = load_credentials w"
  by (rule load_credentials_cong) (simp add: with_access_slot_def)

lemma cached_access_token_streamer_slot:
  "cached_access_token f (with_streamer_slot x w) =
     (fst (cached_access_token f w), with_streamer_slot x (snd (cached_access_token f w)))"
  by (simp add: cached_access_token_def with_streamer_slot_def time_time_def split: option.splits)

lemma store_access_token_streamer_slot:
  "store_access_token tok e (with_streamer_slot x w) =
     (fst (store_access_token tok e w), with_streamer_slot x (snd (store_access_token tok e w)))"
  by (simp add: store_access_token_def with_streamer_slot_def time_time_def split: sum.splits)

lemma send_streamer_slot:
  "send rq (with_streamer_slot x w) = (fst (send rq w), with_streamer_slot x (snd (send rq w)))"
  by (simp add: send_def with_streamer_slot_def)

lemma refresh_access_token_streamer_slot:
  "refresh_access_token (with_streamer_slot x w) =
     (fst (refresh_access_token w), with_streamer_slot x (snd (refresh_access_token w)))"
  by (simp add: refresh_access_token_def load_credentials_streamer_slot send_streamer_slot
      store_access_token_streamer_slot split: sum.splits prod.splits)

lemma get_access_token_streamer_slot:
  "get_access_token f (with_streamer_slot x w) =
     (fst (get_access_token f w), with_streamer_slot x (snd (get_access_token f w)))"
  by (simp add: get_access_token_def cached_access_token_streamer_slot
      refresh_access_token_streamer_slot split: option.splits prod.splits)

lemma cached_streamer_token_access_slot:
  "cached_streamer_token f (with_access_slot x w) =
     (fst (cached_streamer_token f w), with_access_slot x (snd (cached_streamer_token f w)))"
  by (simp add: cached_streamer_token_def with_access_slot_def time_time_def split: option.splits)

lemma store_streamer_token_access_slot:
  "store_streamer_token tok (with_access_slot x w) =
     (fst (store_streamer_token tok w), with_access_slot x (snd (store_streamer_token tok w)))"
  by (simp add: store_streamer_token_def with_access_slot_def time_time_def)

lemma send_access_slot:
  "send rq (with_access_slot x w) = (fst (send rq w), with_access_slot x (snd (send rq w)))"
  by (simp add: send_def with_access_slot_def)

lemma refresh_streamer_token_supplied:
  "tok \<noteq> PyNone \<Longrightarrow>
   refresh_streamer_token tok w =
     (case send (quote_token_request tok) w of
        (Inl e, w2) \<Rightarrow> (Inl e, w2)
      | (Inr resp, w2) \<Rightarrow>
          (case read_quote_response resp of
             Inl e \<Rightarrow> (Inl e, w2)
           | Inr streamer_token \<Rightarrow> store_streamer_token streamer_token w2))"
  by (simp add: refresh_streamer_token_def resolve_access_token_supplied)

lemma refresh_streamer_token_access_slot:
  "tok \<noteq> PyNone \<Longrightarrow>
   refresh_streamer_token tok (with_access_slot x w) =
     (fst (refresh_streamer_token tok w), with_access_slot x (snd (refresh_streamer_token tok w)))"
  by (simp add: refresh_streamer_token_supplied send_access_slot
      store_streamer_token_access_slot split: sum.splits prod.splits)

lemma get_streamer_token_access_slot:
  "tok \<noteq> PyNone \<Longrightarrow>
   get_streamer_token tok f (with_access_slot x w) =
     (fst (get_streamer_token tok f w), with_access_slot x (snd (get_streamer_token tok f w)))"
  by (simp add: get_streamer_token_def cached_streamer_token_access_slot
      refresh_streamer_token_access_slot split: option.splits prod.splits)

lemma refresh_streamer_token_keeps_access_slot:
  "access_token_data (session_state (snd (refresh_streamer_token tok w))) =
   access_token_data (session_state (snd (resolve_access_token tok w)))"
  by (simp add: refresh_streamer_token_def send_def store_streamer_token_frame
      split: sum.splits prod.splits)

lemma get_streamer_token_supplied_access_slot:
  "tok \<noteq> PyNone \<Longrightarrow>
   access_token_data (session_state (snd (get_streamer_token tok f w))) =
   access_token_data (session_state w)"
  by (simp add: get_streamer_token_cases cached_streamer_token_world
      refresh_streamer_token_keeps_access_slot resolve_access_token_supplied
      split: option.splits)

lemma get_streamer_token_supplied_sent:
  "tok \<noteq> PyNone \<Longrightarrow> f \<or> \<not> streamer_fresh w \<Longrightarrow>
   sent (snd (get_streamer_token tok f w)) = sent w @ [quote_token_request tok]"
  by (simp add: get_streamer_token_refresh cached_streamer_token_world
      refresh_streamer_token_sent [where ?w1.0 = "snd (cached_streamer_token f w)"]
      resolve_access_token_supplied)

subsection \<open>The exchange and its outcomes\<close>

lemma read_token_response_ok:
  "status_code r = 200 \<Longrightarrow> resp_json r = Inr (PyDict kvs) \<Longrightarrow>
   map_of kvs ''access_token'' = Some tok \<Longrightarrow>
   read_token_response r =
     Inr (tok, case map_of kvs ''expires_in'' of None \<Rightarrow> PyInt 900 | Some v \<Rightarrow> v)"
  by (simp add: read_token_response_def split: option.splits)

lemma read_token_response_lookup:
  "status_code r = 200 \<Longrightarrow> resp_json r = Inr body \<Longrightarrow>
   py_getitem body ''access_token'' = Inl e \<Longrightarrow> read_token_response r = Inl e"
  by (simp add: read_token_response_def)

lemma read_quote_response_ok:
  "status_code r = 200 \<Longrightarrow> resp_json r = Inr body \<Longrightarrow>
   py_getitem body ''data'' = Inr d \<Longrightarrow> py_getitem d ''token'' = Inr st \<Longrightarrow>
   read_quote_response r = Inr st"
  by (simp add: read_quote_response_def)

lemma read_quote_response_lookup:
  "status_code r = 200 \<Longrightarrow> resp_json r = Inr body \<Longrightarrow>
   py_getitem body ''data'' = Inl e \<or>
     (\<exists>d. py_getitem body ''data'' = Inr d \<and> py_getitem d ''token'' = Inl e) \<Longrightarrow>
   read_quote_response r = Inl e"
  by (auto simp add: read_quote_response_def)

lemma store_access_token_ok:
  "float_add (Finite (clock w (clock_reads w))) x = Inr t \<Longrightarrow>
   fst (store_access_token tok x w) = Inr tok \<and>
   access_token_data (session_state (snd (store_access_token tok x w))) =
     Some \<lparr>access_token = tok, expires_at = t\<rparr>"
  by (simp add: store_access_token_def time_time_def)


lemma store_streamer_token_ok:
  "fst (store_streamer_token st w) = Inr st \<and>
   streamer_token_data (session_state (snd (store_streamer_token st w))) =
     Some \<lparr>token = st,
           streamer_expires_at = fadd (Finite (clock w (clock_reads w))) (Finite 72000)\<rparr>"
  by (simp add: store_streamer_token_def time_time_def)

lemma access_exchange:
  assumes "f \<or> \<not> access_fresh w"
    and "load_credentials w = Inr c"
    and "upstream w (sent w) (oauth_request c) = Inr r"
  shows "get_access_token f w =
     (case read_token_response r of
        Inl e \<Rightarrow> (Inl e, (snd (cached_access_token f w))\<lparr>sent := sent w @ [oauth_request c]\<rparr>)
      | Inr (tok, x) \<Rightarrow>
          store_access_token tok x
            ((snd (cached_access_token f w))\<lparr>sent := sent w @ [oauth_request c]\<rparr>))"
proof -
  let ?w = "snd (cached_access_token f w)"
  have "load_credentials ?w = Inr c"
    using assms(2) load_credentials_cong [of ?w w] by (simp add: cached_access_token_world)
  moreover have "upstream ?w (sent ?w) (oauth_request c) = Inr r"
    using assms(3) by (simp add: cached_access_token_world)
  moreover have "sent ?w = sent w" by (simp add: cached_access_token_world)
  ultimately show ?thesis
    using assms(1) refresh_access_token_step [of ?w c r]
    by (simp add: get_access_token_refresh split: sum.splits prod.splits)
qed

lemma streamer_exchange:
  assumes "f \<or> \<not> streamer_fresh w"
    and "resolve_access_token tok0 (snd (cached_streamer_token f w)) = (Inr tok, w1)"
    and "upstream w (sent w1) (quote_token_request tok) = Inr r"
  shows "get_streamer_token tok0 f w =
     (case read_quote_response r of
        Inl e \<Rightarrow> (Inl e, w1\<lparr>sent := sent w1 @ [quote_token_request tok]\<rparr>)
      | Inr st \<Rightarrow> store_streamer_token st (w1\<lparr>sent := sent w1 @ [quote_token_request tok]\<rparr>))"
proof -
  let ?w = "snd (cached_streamer_token f w)"
  have "upstream ?w (sent w1) (quote_token_request tok) = Inr r"
    using assms(3) by (simp add: cached_streamer_token_world)
  with assms(2) refresh_streamer_token_step [of tok0 ?w tok w1 r] assms(1)
  show ?thesis by (simp add: get_streamer_token_refresh)
qed

lemma access_read_failure:
  assumes "f \<or> \<not> access_fresh w"
    and "load_credentials w = Inr c"
    and "upstream w (sent w) (oauth_request c) = Inr r"
    and "read_token_response r = Inl e"
  shows "fst (get_access_token f w) = Inl e \<and>
     session_state (snd (get_access_token f w)) = session_state w"
  using assms(4) by (simp add: access_exchange [OF assms(1-3)] cached_access_token_world)

lemma streamer_read_failure:
  assumes "f \<or> \<not> streamer_fresh w"
    and "resolve_access_token tok0 (snd (cached_streamer_token f w)) = (Inr tok, w1)"
    and "upstream w (sent w1) (quote_token_request tok) = Inr r"
    and "read_quote_response r = Inl e"
  shows "fst (get_streamer_token tok0 f w) = Inl e \<and>
     streamer_token_data (session_state (snd (get_streamer_token tok0 f w))) =
       streamer_token_data (session_state w)"
  using assms(4) resolved_streamer_slot [OF assms(2)]
  by (simp add: streamer_exchange [OF assms(1-3)])

lemma access_stored:
  assumes "f \<or> \<not> access_fresh w"
    and "load_credentials w = Inr c"
    and "upstream w (sent w) (oauth_request c) = Inr r"
    and "read_token_response r = Inr (tok, x)"
    and "float_add (Finite (clock w (clock_reads (snd (cached_access_token f w))))) x = Inr t"
  shows "fst (get_access_token f w) = Inr tok \<and>
     access_token_data (session_state (snd (get_access_token f w))) =
       Some \<lparr>access_token = tok, expires_at = t\<rparr>"
proof -
  let ?w = "(snd (cached_access_token f w))\<lparr>sent := sent w @ [oauth_request c]\<rparr>"
  have "float_add (Finite (clock ?w (clock_reads ?w))) x = Inr t"
    using assms(5) by (simp add: cached_access_token_world)
  from store_access_token_ok [OF this, of tok] assms(4) show ?thesis
    by (simp add: access_exchange [OF assms(1-3)])
qed

lemma streamer_stored:
  assumes "f \<or> \<not> streamer_fresh w"
    and "resolve_access_token tok0 (snd (cached_streamer_token f w)) = (Inr tok, w1)"
    and "upstream w (sent w1) (quote_token_request tok) = Inr r"
    and "read_quote_response r = Inr st"
  shows "fst (get_streamer_token tok0 f w) = Inr st \<and>
     streamer_token_data (session_state (snd (get_streamer_token tok0 f w))) =
       Some \<lparr>token = st,
             streamer_expires_at = fadd (Finite (clock w (clock_reads w1))) (Finite 72000)\<rparr>"
proof -
  let ?w = "w1\<lparr>sent := sent w1 @ [quote_token_request tok]\<rparr>"
  have "clock w1 = clock w"
    using resolve_access_token_frame [of tok0 "snd (cached_streamer_token f w)"] assms(2)
    by (simp add: cached_streamer_token_world)
  then have "clock ?w (clock_reads ?w) = clock w (clock_reads w1)" by simp
  with store_streamer_token_ok [of st ?w] assms(4) show ?thesis
    by (simp add: streamer_exchange [OF assms(1-3)])
qed

subsection \<open>The forced call does not depend on its own slot\<close>

lemma store_access_token_value_access_slot:
  "fst (store_access_token tok e (with_access_slot x w)) = fst (store_access_token tok e w)"
  by (simp add: store_access_token_def with_access_slot_def time_time_def split: sum.splits)

lemma refresh_access_token_value_access_slot:
  "fst (refresh_access_token (with_access_slot x w)) = fst (refresh_access_token w)"
  by (simp add: refresh_access_token_def load_credentials_access_slot send_access_slot
      store_access_token_value_access_slot split: sum.splits prod.splits)

lemma store_streamer_token_value_streamer_slot:
  "fst (store_streamer_token tok (with_streamer_slot x w)) = fst (store_streamer_token tok w)"
  by (simp add: store_streamer_token_def with_streamer_slot_def time_time_def)

lemma resolve_access_token_streamer_slot:
  "resolve_access_token tok (with_streamer_slot x w) =
     (fst (resolve_access_token tok w), with_streamer_slot x (snd (resolve_access_token tok w)))"
  by (simp add: resolve_access_token_def get_access_token_streamer_slot)

lemma refresh_streamer_token_value_streamer_slot:
  "fst (refresh_streamer_token tok (with_streamer_slot x w)) = fst (refresh_streamer_token tok w)"
  by (simp add: refresh_streamer_token_def resolve_access_token_streamer_slot send_streamer_slot
      store_streamer_token_value_streamer_slot split: sum.splits prod.splits)

subsection \<open>Credentials and the cold start\<close>

lemma load_credentials_present:
  "secret w ''CLIENT_ID'' = Inr a \<Longrightarrow> secret w ''CLIENT_SECRET'' = Inr b \<Longrightarrow>
   secret w ''REFRESH_TOKEN'' = Inr d \<Longrightarrow>
   load_credentials w = Inr \<lparr>client_id = a, client_secret = b, refresh_token = d\<rparr>"
  by (simp add: load_credentials_def)

lemma load_credentials_missing:
  "secrets w = Secrets m \<Longrightarrow>
   m ''CLIENT_ID'' = None \<or> m ''CLIENT_SECRET'' = None \<or> m ''REFRESH_TOKEN'' = None \<Longrightarrow>
   load_credentials w = Inl (ValueError missing_secrets)"
  by (auto simp add: load_credentials_def secret_def split: option.splits)

lemma load_credentials_no_file:
  "secrets w = No_secrets_file \<Longrightarrow> load_credentials w = Inl StreamlitSecretNotFoundError"
  by (simp add: load_credentials_def secret_def)

lemma cold_start_first_call:
  assumes cold: "session_state w = cold_session"
    and creds: "load_credentials w = Inr c"
    and up1: "upstream w (sent w) (oauth_request c) = Inr r1"
    and ok1: "status_code r1 = 200" "resp_json r1 = Inr token_body"
    and up2: "upstream w (sent w @ [oauth_request c]) (quote_token_request (PyStr ''AT1'')) = Inr r2"
    and ok2: "status_code r2 = 200" "resp_json r2 = Inr quote_body"
  shows "get_streamer_token PyNone False w =
     (Inr (PyStr ''ST1''),
      w\<lparr>session_state :=
          \<lparr>access_token_data =
             Some \<lparr>access_token = PyStr ''AT1'', expires_at = fadd (Finite (clock w (clock_reads w))) (Finite 900)\<rparr>,
           streamer_token_data =
             Some \<lparr>token = PyStr ''ST1'',
                   streamer_expires_at =
                     fadd (Finite (clock w (Suc (clock_reads w)))) (Finite 72000)\<rparr>\<rparr>,
        clock_reads := Suc (Suc (clock_reads w)),
        sent := sent w @ [oauth_request c, quote_token_request (PyStr ''AT1'')]\<rparr>)"
proof -
  have rd1: "read_token_response r1 = Inr (PyStr ''AT1'', PyInt 900)"
    using ok1 by (simp add: read_token_response_def token_body_def)
  have rd2: "read_quote_response r2 = Inr (PyStr ''ST1'')"
    using ok2 by (simp add: read_quote_response_def quote_body_def)
  let ?wa = "w\<lparr>session_state :=
          \<lparr>access_token_data =
             Some \<lparr>access_token = PyStr ''AT1'', expires_at = fadd (Finite (clock w (clock_reads w))) (Finite 900)\<rparr>,
           streamer_token_data = None\<rparr>,
        clock_reads := Suc (clock_reads w),
        sent := sent w @ [oauth_request c]\<rparr>"
  have "int_to_float 900 = Inr (Finite 900)"
    using int_to_float_exact [of 900] by simp
  then have acc: "get_access_token False w = (Inr (PyStr ''AT1''), ?wa)"
    using cold creds up1 rd1
    by (simp add: get_access_token_absent cold_session_def refresh_access_token_step
        store_access_token_def time_time_def)
  then have res: "resolve_access_token PyNone w = (Inr (PyStr ''AT1''), ?wa)"
    by (simp add: resolve_access_token_def)
  have "upstream w (sent ?wa) (quote_token_request (PyStr ''AT1'')) = Inr r2"
    using up2 by simp
  from refresh_streamer_token_step [OF res this] rd2 cold show ?thesis
    by (simp add: get_streamer_token_absent cold_session_def store_streamer_token_def
        time_time_def)
qed

lemma access_without_credentials:
  assumes "f \<or> \<not> access_fresh w" and "load_credentials w = Inl e"
  shows "get_access_token f w = (Inl e, snd (cached_access_token f w))"
proof -
  have "load_credentials (snd (cached_access_token f w)) = Inl e"
    using assms(2) load_credentials_cong [of "snd (cached_access_token f w)" w]
    by (simp add: cached_access_token_world)
  then show ?thesis
    using assms(1) by (simp add: get_access_token_refresh refresh_access_token_no_credentials)
qed

section \<open>The claims\<close>

text \<open>
  C1. Without \<^verbatim>\<open>force_refresh\<close>, a filled access slot is served from the cache, with
  no request sent, exactly when the float sum of the clock reading and 60 is strictly
  below its \<open>expires_at\<close>; a filled streamer slot exactly when the sum of the reading
  and 300 is strictly below its expiry. A fresh entry is returned with only the clock
  read. A stale entry makes the call continue as the forced call does: with
  credentials that load, the POST of the refresh-token grant is sent; with a resolved
  access token, the GET of the quote-token endpoint. For a reading from 0 up to
  \<open>2 ^ 52\<close> an expiry of the reading plus 61 (plus 301), taken exactly or as the float
  sum, is fresh, and one of the reading plus 59 (plus 299) is stale.
\<close>

theorem freshness_margins:
  "(access_token_data (session_state w) = Some e \<longrightarrow>
      ((fst (get_access_token False w) = Inr (access_token e) \<and>
        sent (snd (get_access_token False w)) = sent w)
         \<longleftrightarrow> fless (fadd (Finite (clock w (clock_reads w))) (Finite 60)) (expires_at e)) \<and>
      (fless (fadd (Finite (clock w (clock_reads w))) (Finite 60)) (expires_at e) \<longrightarrow>
         get_access_token False w = (Inr (access_token e), snd (time_time w))) \<and>
      (\<not> fless (fadd (Finite (clock w (clock_reads w))) (Finite 60)) (expires_at e) \<longrightarrow>
         get_access_token False w = get_access_token True (snd (time_time w)) \<and>
         (load_credentials w = Inr c \<longrightarrow>
            sent (snd (get_access_token False w)) =
              sent w @ [POST ''https://api.tastytrade.com/oauth/token''
                         [(''grant_type'', ''refresh_token''),
                          (''refresh_token'', refresh_token c),
                          (''client_id'', client_id c),
                          (''client_secret'', client_secret c)]])) \<and>
      (0 \<le> clock w (clock_reads w) \<and> clock w (clock_reads w) + 61 < 2 ^ 52 \<longrightarrow>
         (expires_at e = Finite (clock w (clock_reads w) + 61) \<longrightarrow>
            fless (fadd (Finite (clock w (clock_reads w))) (Finite 60)) (expires_at e)) \<and>
         (expires_at e = Finite (clock w (clock_reads w) + 59) \<longrightarrow>
            \<not> fless (fadd (Finite (clock w (clock_reads w))) (Finite 60)) (expires_at e)) \<and>
         (expires_at e = fadd (Finite (clock w (clock_reads w))) (Finite 61) \<longrightarrow>
            fless (fadd (Finite (clock w (clock_reads w))) (Finite 60)) (expires_at e)) \<and>
         (expires_at e = fadd (Finite (clock w (clock_reads w))) (Finite 59) \<longrightarrow>
            \<not> fless (fadd (Finite (clock w (clock_reads w))) (Finite 60)) (expires_at e)))) \<and>
   (streamer_token_data (session_state w) = Some s \<longrightarrow>
      ((fst (get_streamer_token tok0 False w) = Inr (token s) \<and>
        sent (snd (get_streamer_token tok0 False w)) = sent w)
         \<longleftrightarrow>
       fless (fadd (Finite (clock w (clock_reads w))) (Finite 300)) (streamer_expires_at s)) \<and>
      (fless (fadd (Finite (clock w (clock_reads w))) (Finite 300)) (streamer_expires_at s) \<longrightarrow>
         get_streamer_token tok0 False w = (Inr (token s), snd (time_time w))) \<and>
      (\<not> fless (fadd (Finite (clock w (clock_reads w))) (Finite 300)) (streamer_expires_at s) \<longrightarrow>
         get_streamer_token tok0 False w = get_streamer_token tok0 True (snd (time_time w)) \<and>
         (resolve_access_token tok0 (snd (time_time w)) = (Inr tok, w1) \<longrightarrow>
            sent (snd (get_streamer_token tok0 False w)) =
              sent w1 @ [GET ''https://api.tastyworks.com/api-quote-tokens''
                          [(''Authorization'', Bearer tok)]])) \<and>
      (0 \<le> clock w (clock_reads w) \<and> clock w (clock_reads w) + 301 < 2 ^ 52 \<longrightarrow>
         (streamer_expires_at s = Finite (clock w (clock_reads w) + 301) \<longrightarrow>
            fless (fadd (Finite (clock w (clock_reads w))) (Finite 300)) (streamer_expires_at s)) \<and>
         (streamer_expires_at s = Finite (clock w (clock_reads w) + 299) \<longrightarrow>
            \<not> fless (fadd (Finite (clock w (clock_reads w))) (Finite 300))
                 (streamer_expires_at s)) \<and>
         (streamer_expires_at s = fadd (Finite (clock w (clock_reads w))) (Finite 301) \<longrightarrow>
            fless (fadd (Finite (clock w (clock_reads w))) (Finite 300)) (streamer_expires_at s)) \<and>
         (streamer_expires_at s = fadd (Finite (clock w (clock_reads w))) (Finite 299) \<longrightarrow>
            \<not> fless (fadd (Finite (clock w (clock_reads w))) (Finite 300))
                 (streamer_expires_at s))))"
proof -
  let ?now = "clock w (clock_reads w)"
  let ?w' = "w\<lparr>clock_reads := Suc (clock_reads w)\<rparr>"
  have tt: "snd (time_time w) = ?w'" by (simp add: time_time_def)
  have margin: "fless (fadd (Finite ?now) (Finite k)) (Finite (?now + k + 1)) \<and>
      \<not> fless (fadd (Finite ?now) (Finite k)) (Finite (?now + k - 1)) \<and>
      fless (fadd (Finite ?now) (Finite k)) (fadd (Finite ?now) (Finite (k + 1))) \<and>
      \<not> fless (fadd (Finite ?now) (Finite k)) (fadd (Finite ?now) (Finite (k - 1)))"
    if "0 \<le> ?now \<and> ?now + (k + 1) < 2 ^ 52" and "1 \<le> k" for k
  proof -
    from that have b: "0 \<le> ?now + k" "?now + k < 2 ^ 52"
      "0 \<le> ?now + (k + 1)" "?now + (k + 1) < 2 ^ 52"
      "0 \<le> ?now + (k - 1)" "?now + (k - 1) < 2 ^ 52"
      by simp_all
    from fadd_near [OF b(1,2)] obtain r where
      r: "fadd (Finite ?now) (Finite k) = Finite r" "\<bar>r - (?now + k)\<bar> \<le> 1 / 4"
      by blast
    from fadd_near [OF b(3,4)] obtain u where
      u: "fadd (Finite ?now) (Finite (k + 1)) = Finite u" "\<bar>u - (?now + (k + 1))\<bar> \<le> 1 / 4"
      by blast
    from fadd_near [OF b(5,6)] obtain l where
      l: "fadd (Finite ?now) (Finite (k - 1)) = Finite l" "\<bar>l - (?now + (k - 1))\<bar> \<le> 1 / 4"
      by blast
    from r(2) u(2) l(2) have "r < ?now + k + 1" "\<not> r < ?now + k - 1" "r < u" "\<not> r < l"
      by linarith+
    then show ?thesis
      by (simp only: r(1) u(1) l(1) fless.simps) simp
  qed
  {
    assume e: "access_token_data (session_state w) = Some e"
    let ?fresh = "fless (fadd (Finite ?now) (Finite 60)) (expires_at e)"
    have hit: "get_access_token False w = (Inr (access_token e), snd (time_time w))" if ?fresh
      using e that by (simp add: get_access_token_fresh tt)
    have miss: "get_access_token False w = refresh_access_token ?w'" if "\<not> ?fresh"
      using e that by (simp add: get_access_token_stale)
    have a1: "(fst (get_access_token False w) = Inr (access_token e) \<and>
        sent (snd (get_access_token False w)) = sent w) \<longleftrightarrow> ?fresh"
    proof (cases ?fresh)
      case True
      then show ?thesis by (simp add: hit tt)
    next
      case False
      with miss refresh_access_token_no_silent_success [of ?w' "access_token e"]
      show ?thesis by auto
    qed
    have a3: "get_access_token False w = get_access_token True (snd (time_time w)) \<and>
        (load_credentials w = Inr c \<longrightarrow>
           sent (snd (get_access_token False w)) =
             sent w @ [POST ''https://api.tastytrade.com/oauth/token''
                        [(''grant_type'', ''refresh_token''),
                         (''refresh_token'', refresh_token c),
                         (''client_id'', client_id c),
                         (''client_secret'', client_secret c)]])" if "\<not> ?fresh"
    proof -
      have "load_credentials ?w' = load_credentials w"
        by (rule load_credentials_cong) simp
      then show ?thesis
        using miss [OF that]
        by (simp add: get_access_token_forced tt refresh_access_token_sent oauth_request_def)
    qed
    have a4: "(expires_at e = Finite (?now + 61) \<longrightarrow> ?fresh) \<and>
        (expires_at e = Finite (?now + 59) \<longrightarrow> \<not> ?fresh) \<and>
        (expires_at e = fadd (Finite ?now) (Finite 61) \<longrightarrow> ?fresh) \<and>
        (expires_at e = fadd (Finite ?now) (Finite 59) \<longrightarrow> \<not> ?fresh)"
      if "0 \<le> ?now \<and> ?now + 61 < 2 ^ 52"
    proof -
      from that have "0 \<le> ?now \<and> ?now + (60 + 1) < 2 ^ 52" by simp
      from margin [OF this] show ?thesis
        by (simp add: algebra_simps del: fadd.simps)
    qed
    note a1 hit a3 a4
  }
  note A = this
  {
    assume s: "streamer_token_data (session_state w) = Some s"
    let ?fresh = "fless (fadd (Finite ?now) (Finite 300)) (streamer_expires_at s)"
    have hit: "get_streamer_token tok0 False w = (Inr (token s), snd (time_time w))" if ?fresh
      using s that by (simp add: get_streamer_token_fresh tt)
    have miss: "get_streamer_token tok0 False w = refresh_streamer_token tok0 ?w'" if "\<not> ?fresh"
      using s that by (simp add: get_streamer_token_stale)
    have s1: "(fst (get_streamer_token tok0 False w) = Inr (token s) \<and>
        sent (snd (get_streamer_token tok0 False w)) = sent w) \<longleftrightarrow> ?fresh"
    proof (cases ?fresh)
      case True
      then show ?thesis by (simp add: hit tt)
    next
      case False
      with miss refresh_streamer_token_no_silent_success [of tok0 ?w' "token s"]
      show ?thesis by auto
    qed
    have s3: "get_streamer_token tok0 False w = get_streamer_token tok0 True (snd (time_time w)) \<and>
        (resolve_access_token tok0 (snd (time_time w)) = (Inr tok, w1) \<longrightarrow>
           sent (snd (get_streamer_token tok0 False w)) =
             sent w1 @ [GET ''https://api.tastyworks.com/api-quote-tokens''
                         [(''Authorization'', Bearer tok)]])" if "\<not> ?fresh"
      using miss [OF that]
      by (auto simp add: get_streamer_token_forced tt refresh_streamer_token_sent
          quote_token_request_def)
    have s4: "(streamer_expires_at s = Finite (?now + 301) \<longrightarrow> ?fresh) \<and>
        (streamer_expires_at s = Finite (?now + 299) \<longrightarrow> \<not> ?fresh) \<and>
        (streamer_expires_at s = fadd (Finite ?now) (Finite 301) \<longrightarrow> ?fresh) \<and>
        (streamer_expires_at s = fadd (Finite ?now) (Finite 299) \<longrightarrow> \<not> ?fresh)"
      if "0 \<le> ?now \<and> ?now + 301 < 2 ^ 52"
    proof -
      from that have "0 \<le> ?now \<and> ?now + (300 + 1) < 2 ^ 52" by simp
      from margin [OF this] show ?thesis
        by (simp add: algebra_simps del: fadd.simps)
    qed
    note s1 hit s3 s4
  }
  note S = this
  show ?thesis
    using A S by blast
qed

theorem freshness_margins_witness:
  "get_access_token False
       (example_world configured_secrets healthy_upstream (warm_session 1061 1301)) =
     (Inr (PyStr ''AT0''),
      snd (time_time (example_world configured_secrets healthy_upstream (warm_session 1061 1301)))) \<and>
   get_streamer_token PyNone False
       (example_world configured_secrets healthy_upstream (warm_session 1061 1301)) =
     (Inr (PyStr ''ST0''),
      snd (time_time (example_world configured_secrets healthy_upstream (warm_session 1061 1301)))) \<and>
   sent (snd (get_access_token False
       (example_world configured_secrets healthy_upstream (warm_session 1059 1299)))) =
     [POST ''https://api.tastytrade.com/oauth/token''
        [(''grant_type'', ''refresh_token''), (''refresh_token'', ''r1''),
         (''client_id'', ''c1''), (''client_secret'', ''s1'')]] \<and>
   sent (snd (get_streamer_token (PyStr ''AT9'') False
       (example_world configured_secrets healthy_upstream (warm_session 1059 1299)))) =
     [GET ''https://api.tastyworks.com/api-quote-tokens''
        [(''Authorization'', Bearer (PyStr ''AT9''))]]"
proof -
  let ?F = "example_world configured_secrets healthy_upstream (warm_session 1061 1301)"
  let ?S = "example_world configured_secrets healthy_upstream (warm_session 1059 1299)"
  let ?ea = "\<lambda>t. \<lparr>access_token = PyStr ''AT0'', expires_at = Finite t\<rparr>"
  let ?es = "\<lambda>t. \<lparr>token = PyStr ''ST0'', streamer_expires_at = Finite t\<rparr>"
  have now: "clock ?F (clock_reads ?F) = 1000" "clock ?S (clock_reads ?S) = 1000"
    by (simp_all add: example_world_def)
  have slots:
    "access_token_data (session_state ?F) = Some (?ea 1061)"
    "streamer_token_data (session_state ?F) = Some (?es 1301)"
    "access_token_data (session_state ?S) = Some (?ea 1059)"
    "streamer_token_data (session_state ?S) = Some (?es 1299)"
    by (simp_all add: example_world_def warm_session_def)
  have creds: "load_credentials ?S = Inr configured_credentials"
    by (simp add: load_credentials_def secret_def example_world_def configured_secrets_def
        configured_credentials_def)
  have res: "resolve_access_token (PyStr ''AT9'') (snd (time_time ?S)) =
      (Inr (PyStr ''AT9''), snd (time_time ?S))"
    by (simp add: resolve_access_token_def)
  have sent0: "sent ?S = []" "sent (snd (time_time ?S)) = []"
    by (simp_all add: example_world_def time_time_def)
  note F = freshness_margins [of ?F "?ea 1061" _ "?es 1301" PyNone]
  note S = freshness_margins [of ?S "?ea 1059" configured_credentials "?es 1299"
      "PyStr ''AT9''" "PyStr ''AT9''" "snd (time_time ?S)"]
  note FA = F [THEN conjunct1, rule_format, OF slots(1)]
  note FS = F [THEN conjunct2, rule_format, OF slots(2)]
  note SA = S [THEN conjunct1, rule_format, OF slots(3)]
  note SS = S [THEN conjunct2, rule_format, OF slots(4)]
  have fa: "fless (fadd (Finite (clock ?F (clock_reads ?F))) (Finite 60))
      (expires_at (?ea 1061))"
    using FA [THEN conjunct2, THEN conjunct2, THEN conjunct2] by (simp add: now)
  have fs: "fless (fadd (Finite (clock ?F (clock_reads ?F))) (Finite 300))
      (streamer_expires_at (?es 1301))"
    using FS [THEN conjunct2, THEN conjunct2, THEN conjunct2] by (simp add: now)
  have sa: "\<not> fless (fadd (Finite (clock ?S (clock_reads ?S))) (Finite 60))
      (expires_at (?ea 1059))"
    using SA [THEN conjunct2, THEN conjunct2, THEN conjunct2] by (simp add: now)
  have ss: "\<not> fless (fadd (Finite (clock ?S (clock_reads ?S))) (Finite 300))
      (streamer_expires_at (?es 1299))"
    using SS [THEN conjunct2, THEN conjunct2, THEN conjunct2] by (simp add: now)
  have 1: "get_access_token False ?F = (Inr (PyStr ''AT0''), snd (time_time ?F))"
    using FA [THEN conjunct2, THEN conjunct1, rule_format, OF fa] by simp
  have 2: "get_streamer_token PyNone False ?F = (Inr (PyStr ''ST0''), snd (time_time ?F))"
    using FS [THEN conjunct2, THEN conjunct1, rule_format, OF fs] by simp
  have 3: "sent (snd (get_access_token False ?S)) =
     [POST ''https://api.tastytrade.com/oauth/token''
        [(''grant_type'', ''refresh_token''), (''refresh_token'', ''r1''),
         (''client_id'', ''c1''), (''client_secret'', ''s1'')]]"
    using SA [THEN conjunct2, THEN conjunct2, THEN conjunct1, rule_format, OF sa,
        THEN conjunct2, rule_format, OF creds]
    by (simp add: sent0 configured_credentials_def)
  have 4: "sent (snd (get_streamer_token (PyStr ''AT9'') False ?S)) =
     [GET ''https://api.tastyworks.com/api-quote-tokens''
        [(''Authorization'', Bearer (PyStr ''AT9''))]]"
    using SS [THEN conjunct2, THEN conjunct2, THEN conjunct1, rule_format, OF ss,
        THEN conjunct2, rule_format, OF res]
    by (simp add: sent0)
  from 1 2 3 4 show ?thesis by blast
qed

text \<open>
  C2. When the call goes past its cache test and the upstream answers the exchange with
  a status other than 200, the call fails and the session state is what it was: for
  the access token the whole session state, for the streamer token the streamer slot
  (an access token obtained on the way may have been stored in the access slot).
\<close>

theorem failed_refresh_keeps_cache:
  "((f \<or> \<not> access_fresh w) \<and> load_credentials w = Inr c \<and>
    upstream w (sent w) (oauth_request c) = Inr r \<and> status_code r \<noteq> 200 \<longrightarrow>
      (\<exists>e. fst (get_access_token f w) = Inl e) \<and>
      session_state (snd (get_access_token f w)) = session_state w) \<and>
   ((f \<or> \<not> streamer_fresh w) \<and>
    resolve_access_token tok0 (snd (cached_streamer_token f w)) = (Inr tok, w1) \<and>
    upstream w (sent w1) (quote_token_request tok) = Inr r \<and> status_code r \<noteq> 200 \<longrightarrow>
      (\<exists>e. fst (get_streamer_token tok0 f w) = Inl e) \<and>
      streamer_token_data (session_state (snd (get_streamer_token tok0 f w))) =
        streamer_token_data (session_state w))"
proof (intro conjI impI)
  assume a: "(f \<or> \<not> access_fresh w) \<and> load_credentials w = Inr c \<and>
    upstream w (sent w) (oauth_request c) = Inr r \<and> status_code r \<noteq> 200"
  then have g: "get_access_token f w =
     (Inl (Exception (''Token error: '' @ resp_text r)),
      (snd (cached_access_token f w))\<lparr>sent := sent w @ [oauth_request c]\<rparr>)"
    by (intro access_non_success) simp_all
  show "\<exists>e. fst (get_access_token f w) = Inl e" by (simp add: g)
  show "session_state (snd (get_access_token f w)) = session_state w"
    by (simp add: g cached_access_token_world)
next
  assume a: "(f \<or> \<not> streamer_fresh w) \<and>
    resolve_access_token tok0 (snd (cached_streamer_token f w)) = (Inr tok, w1) \<and>
    upstream w (sent w1) (quote_token_request tok) = Inr r \<and> status_code r \<noteq> 200"
  then have g: "get_streamer_token tok0 f w =
     (Inl (Exception (''Streamer token error: '' @ resp_text r)),
      w1\<lparr>sent := sent w1 @ [quote_token_request tok]\<rparr>)"
    by (intro streamer_non_success) simp_all
  show "\<exists>e. fst (get_streamer_token tok0 f w) = Inl e" by (simp add: g)
  from a have "streamer_token_data (session_state w1) = streamer_token_data (session_state w)"
    using resolved_streamer_slot [of tok0 f w "Inr tok" w1] by simp
  then show "streamer_token_data (session_state (snd (get_streamer_token tok0 f w))) =
        streamer_token_data (session_state w)"
    by (simp add: g)
qed

theorem failed_refresh_keeps_cache_witness:
  "\<not> access_fresh (example_world configured_secrets (constant_upstream unavailable)
        (warm_session 1059 1299)) \<and>
   status_code unavailable \<noteq> 200 \<and>
   session_state (snd (get_access_token False
        (example_world configured_secrets (constant_upstream unavailable) (warm_session 1059 1299)))) =
     warm_session 1059 1299 \<and>
   streamer_token_data (session_state (snd (get_streamer_token (PyStr ''AT9'') False
        (example_world configured_secrets (constant_upstream unavailable) (warm_session 1059 1299))))) =
     Some \<lparr>token = PyStr ''ST0'', streamer_expires_at = Finite 1299\<rparr>"
  using failed_refresh_keeps_cache
    [of False "example_world configured_secrets (constant_upstream unavailable) (warm_session 1059 1299)"
      configured_credentials unavailable "PyStr ''AT9''" "PyStr ''AT9''"
      "snd (cached_streamer_token False
         (example_world configured_secrets (constant_upstream unavailable) (warm_session 1059 1299)))"]
  by (simp add: example_world_def warm_session_def access_fresh_def streamer_fresh_def
      load_credentials_def secret_def round_double_numeral configured_secrets_def configured_credentials_def
      constant_upstream_def unavailable_def resolve_access_token_def)

text \<open>
  C3. With \<^verbatim>\<open>force_refresh=True\<close> the result of either acquisition does not depend on
  the cached entry of its kind. The access-token call first loads the credentials:
  when that fails the call fails with the same error and changes nothing, otherwise it
  sends the POST of the refresh-token grant. The streamer-token call first takes the
  supplied access token or, without one, the result of the nested acquisition: when
  that fails the call fails with the same error, otherwise it sends the GET with that
  bearer. On a response of status 200 whose body is an object holding
  \<^verbatim>\<open>access_token\<close>, and when the sum of the clock reading and \<^verbatim>\<open>expires_in\<close> (900
  without one) raises nothing, the new token is returned and the access slot holds it
  with that sum. On a response of status 200 whose body holds \<^verbatim>\<open>data.token\<close> the new
  token is returned and the streamer slot holds it with the float sum of the clock
  reading and 72000.
\<close>

theorem forced_refresh_bypasses_cache:
  "fst (get_access_token True (with_access_slot x w)) = fst (get_access_token True w) \<and>
   (load_credentials w = Inl err \<longrightarrow> get_access_token True w = (Inl err, w)) \<and>
   (load_credentials w = Inr c \<longrightarrow>
      sent (snd (get_access_token True w)) =
        sent w @ [POST ''https://api.tastytrade.com/oauth/token''
                   [(''grant_type'', ''refresh_token''),
                    (''refresh_token'', refresh_token c),
                    (''client_id'', client_id c),
                    (''client_secret'', client_secret c)]]) \<and>
   (load_credentials w = Inr c \<and> upstream w (sent w) (oauth_request c) = Inr r \<and>
    status_code r = 200 \<and> resp_json r = Inr (PyDict kvs) \<and>
    map_of kvs ''access_token'' = Some tok \<and>
    float_add (Finite (clock w (clock_reads w)))
      (case map_of kvs ''expires_in'' of None \<Rightarrow> PyInt 900 | Some v \<Rightarrow> v) = Inr t \<longrightarrow>
      fst (get_access_token True w) = Inr tok \<and>
      access_token_data (session_state (snd (get_access_token True w))) =
        Some \<lparr>access_token = tok, expires_at = t\<rparr>) \<and>
   fst (get_streamer_token tok0 True (with_streamer_slot y w)) =
     fst (get_streamer_token tok0 True w) \<and>
   (resolve_access_token tok0 w = (Inl err', w1) \<longrightarrow>
      get_streamer_token tok0 True w = (Inl err', w1)) \<and>
   (resolve_access_token tok0 w = (Inr tok', w1) \<longrightarrow>
      sent (snd (get_streamer_token tok0 True w)) =
        sent w1 @ [GET ''https://api.tastyworks.com/api-quote-tokens''
                    [(''Authorization'', Bearer tok')]]) \<and>
   (resolve_access_token tok0 w = (Inr tok', w1) \<and>
    upstream w (sent w1) (quote_token_request tok') = Inr r' \<and> status_code r' = 200 \<and>
    resp_json r' = Inr body \<and> py_getitem body ''data'' = Inr d \<and>
    py_getitem d ''token'' = Inr st \<longrightarrow>
      fst (get_streamer_token tok0 True w) = Inr st \<and>
      streamer_token_data (session_state (snd (get_streamer_token tok0 True w))) =
        Some \<lparr>token = st,
              streamer_expires_at = fadd (Finite (clock w (clock_reads w1))) (Finite 72000)\<rparr>)"
proof (intro conjI impI)
  show "fst (get_access_token True (with_access_slot x w)) = fst (get_access_token True w)"
    by (simp add: get_access_token_forced refresh_access_token_value_access_slot)
  show "get_access_token True w = (Inl err, w)" if "load_credentials w = Inl err"
    using that by (simp add: get_access_token_forced refresh_access_token_no_credentials)
  show "sent (snd (get_access_token True w)) =
      sent w @ [POST ''https://api.tastytrade.com/oauth/token''
                 [(''grant_type'', ''refresh_token''),
                  (''refresh_token'', refresh_token c),
                  (''client_id'', client_id c),
                  (''client_secret'', client_secret c)]]"
    if "load_credentials w = Inr c"
    using that
    by (simp add: get_access_token_forced refresh_access_token_sent oauth_request_def)
  show "fst (get_streamer_token tok0 True (with_streamer_slot y w)) =
      fst (get_streamer_token tok0 True w)"
    by (simp add: get_streamer_token_forced refresh_streamer_token_value_streamer_slot)
  show "get_streamer_token tok0 True w = (Inl err', w1)"
    if "resolve_access_token tok0 w = (Inl err', w1)"
    using that by (simp add: get_streamer_token_forced refresh_streamer_token_unresolved)
  show "sent (snd (get_streamer_token tok0 True w)) =
      sent w1 @ [GET ''https://api.tastyworks.com/api-quote-tokens''
                  [(''Authorization'', Bearer tok')]]"
    if "resolve_access_token tok0 w = (Inr tok', w1)"
    using that
    by (simp add: get_streamer_token_forced refresh_streamer_token_sent quote_token_request_def)
next
  assume a: "load_credentials w = Inr c \<and> upstream w (sent w) (oauth_request c) = Inr r \<and>
    status_code r = 200 \<and> resp_json r = Inr (PyDict kvs) \<and>
    map_of kvs ''access_token'' = Some tok \<and>
    float_add (Finite (clock w (clock_reads w)))
      (case map_of kvs ''expires_in'' of None \<Rightarrow> PyInt 900 | Some v \<Rightarrow> v) = Inr t"
  then have rd: "read_token_response r =
      Inr (tok, case map_of kvs ''expires_in'' of None \<Rightarrow> PyInt 900 | Some v \<Rightarrow> v)"
    by (simp add: read_token_response_ok)
  from a have c: "load_credentials w = Inr c"
    and u: "upstream w (sent w) (oauth_request c) = Inr r"
    and fa: "float_add (Finite (clock w (clock_reads w)))
      (case map_of kvs ''expires_in'' of None \<Rightarrow> PyInt 900 | Some v \<Rightarrow> v) = Inr t"
    by blast+
  have k: "clock_reads (snd (cached_access_token True w)) = clock_reads w"
    by (simp add: cached_access_token_world)
  have "fst (get_access_token True w) = Inr tok \<and>
      access_token_data (session_state (snd (get_access_token True w))) =
        Some \<lparr>access_token = tok, expires_at = t\<rparr>"
    by (rule access_stored [of True w c r tok _ t, unfolded k, OF _ c u rd fa]) simp
  then show "fst (get_access_token True w) = Inr tok"
    and "access_token_data (session_state (snd (get_access_token True w))) =
        Some \<lparr>access_token = tok, expires_at = t\<rparr>"
    by simp_all
next
  assume a: "resolve_access_token tok0 w = (Inr tok', w1) \<and>
    upstream w (sent w1) (quote_token_request tok') = Inr r' \<and> status_code r' = 200 \<and>
    resp_json r' = Inr body \<and> py_getitem body ''data'' = Inr d \<and>
    py_getitem d ''token'' = Inr st"
  then have rd: "read_quote_response r' = Inr st"
    by (intro read_quote_response_ok [of r' body d st]) simp_all
  have "snd (cached_streamer_token True w) = w"
    by (simp add: cached_streamer_token_world)
  with a rd have "fst (get_streamer_token tok0 True w) = Inr st \<and>
      streamer_token_data (session_state (snd (get_streamer_token tok0 True w))) =
        Some \<lparr>token = st,
              streamer_expires_at = fadd (Finite (clock w (clock_reads w1))) (Finite 72000)\<rparr>"
    by (intro streamer_stored [of True w tok0 tok' w1 r' st]) simp_all
  then show "fst (get_streamer_token tok0 True w) = Inr st"
    and "streamer_token_data (session_state (snd (get_streamer_token tok0 True w))) =
        Some \<lparr>token = st,
              streamer_expires_at = fadd (Finite (clock w (clock_reads w1))) (Finite 72000)\<rparr>"
    by simp_all
qed

theorem forced_refresh_bypasses_cache_witness:
  "access_fresh (example_world configured_secrets healthy_upstream (warm_session 2000 2000)) \<and>
   streamer_fresh (example_world configured_secrets healthy_upstream (warm_session 2000 2000)) \<and>
   sent (snd (get_access_token True
     (example_world configured_secrets healthy_upstream (warm_session 2000 2000)))) =
     [POST ''https://api.tastytrade.com/oauth/token''
        [(''grant_type'', ''refresh_token''), (''refresh_token'', ''r1''),
         (''client_id'', ''c1''), (''client_secret'', ''s1'')]] \<and>
   fst (get_access_token True
     (example_world configured_secrets healthy_upstream (warm_session 2000 2000))) =
     Inr (PyStr ''AT1'') \<and>
   access_token_data (session_state (snd (get_access_token True
     (example_world configured_secrets healthy_upstream (warm_session 2000 2000))))) =
     Some \<lparr>access_token = PyStr ''AT1'', expires_at = Finite 1900\<rparr> \<and>
   sent (snd (get_streamer_token PyNone True
     (example_world configured_secrets healthy_upstream (warm_session 2000 2000)))) =
     [GET ''https://api.tastyworks.com/api-quote-tokens''
        [(''Authorization'', Bearer (PyStr ''AT0''))]] \<and>
   fst (get_streamer_token PyNone True
     (example_world configured_secrets healthy_upstream (warm_session 2000 2000))) =
     Inr (PyStr ''ST1'') \<and>
   streamer_token_data (session_state (snd (get_streamer_token PyNone True
     (example_world configured_secrets healthy_upstream (warm_session 2000 2000))))) =
     Some \<lparr>token = PyStr ''ST1'', streamer_expires_at = Finite 73001\<rparr> \<and>
   get_access_token True (example_world no_secrets healthy_upstream (warm_session 2000 1299)) =
     (Inl (ValueError missing_secrets),
      example_world no_secrets healthy_upstream (warm_session 2000 1299)) \<and>
   fst (get_streamer_token PyNone True
     (example_world no_secrets healthy_upstream (warm_session 1059 1299))) =
     Inl (ValueError missing_secrets)"
proof -
  let ?W = "example_world configured_secrets healthy_upstream (warm_session 2000 2000)"
  let ?N = "example_world no_secrets healthy_upstream (warm_session 2000 1299)"
  let ?M = "example_world no_secrets healthy_upstream (warm_session 1059 1299)"
  let ?k = "[(''access_token'', PyStr ''AT1''), (''expires_in'', PyInt 900)]"
  let ?w1 = "snd (get_access_token False ?W)"
  let ?m1 = "snd (get_access_token False ?M)"
  have i900: "int_to_float 900 = Inr (Finite 900)"
    using int_to_float_exact [of 900] by simp
  have fr: "access_fresh ?W" "streamer_fresh ?W"
    by (simp_all add: access_fresh_def streamer_fresh_def example_world_def warm_session_def
        round_double_numeral)
  have c: "load_credentials ?W = Inr configured_credentials"
    by (simp add: load_credentials_def secret_def example_world_def configured_secrets_def
        configured_credentials_def)
  have a: "load_credentials ?W = Inr configured_credentials \<and>
      upstream ?W (sent ?W) (oauth_request configured_credentials) = Inr (ok_response token_body) \<and>
      status_code (ok_response token_body) = 200 \<and>
      resp_json (ok_response token_body) = Inr (PyDict ?k) \<and>
      map_of ?k ''access_token'' = Some (PyStr ''AT1'') \<and>
      float_add (Finite (clock ?W (clock_reads ?W)))
        (case map_of ?k ''expires_in'' of None \<Rightarrow> PyInt 900 | Some v \<Rightarrow> v) =
        Inr (Finite 1900)"
    using c
    by (simp add: example_world_def healthy_upstream_def oauth_request_def ok_response_def
        token_body_def i900 round_double_numeral)
  have g: "get_access_token False ?W =
      (Inr (PyStr ''AT0''), ?W\<lparr>clock_reads := Suc (clock_reads ?W)\<rparr>)"
    by (rule get_access_token_fresh
          [of ?W "\<lparr>access_token = PyStr ''AT0'', expires_at = Finite 2000\<rparr>", simplified])
       (simp_all add: example_world_def warm_session_def round_double_numeral)
  have res: "resolve_access_token PyNone ?W = (Inr (PyStr ''AT0''), ?w1)"
    by (simp add: resolve_access_token_def g)
  have w1: "sent ?w1 = []" "clock_reads ?w1 = 1"
    by (simp_all add: g) (simp_all add: example_world_def)
  have b: "resolve_access_token PyNone ?W = (Inr (PyStr ''AT0''), ?w1) \<and>
      upstream ?W (sent ?w1) (quote_token_request (PyStr ''AT0'')) =
        Inr (ok_response quote_body) \<and>
      status_code (ok_response quote_body) = 200 \<and>
      resp_json (ok_response quote_body) = Inr quote_body \<and>
      py_getitem quote_body ''data'' = Inr (PyDict [(''token'', PyStr ''ST1'')]) \<and>
      py_getitem (PyDict [(''token'', PyStr ''ST1'')]) ''token'' = Inr (PyStr ''ST1'')"
    using res
    by (simp add: example_world_def healthy_upstream_def quote_token_request_def
        ok_response_def quote_body_def)
  have n: "load_credentials ?N = Inl (ValueError missing_secrets)"
    "load_credentials ?M = Inl (ValueError missing_secrets)"
    by (simp_all add: load_credentials_def secret_def example_world_def no_secrets_def)
  have "\<not> access_fresh ?M"
    by (simp add: access_fresh_def example_world_def warm_session_def round_double_numeral)
  then have "get_access_token False ?M =
      (Inl (ValueError missing_secrets), snd (cached_access_token False ?M))"
    using n(2) by (intro access_without_credentials) simp_all
  then have unres: "resolve_access_token PyNone ?M = (Inl (ValueError missing_secrets), ?m1)"
    by (simp add: resolve_access_token_def)
  note T = forced_refresh_bypasses_cache
    [where w = ?W and c = configured_credentials and r = "ok_response token_body" and kvs = ?k
       and tok = "PyStr ''AT1''" and t = "Finite 1900" and ?tok0.0 = PyNone
       and tok' = "PyStr ''AT0''" and ?w1.0 = ?w1 and r' = "ok_response quote_body"
       and body = quote_body and d = "PyDict [(''token'', PyStr ''ST1'')]"
       and st = "PyStr ''ST1''"]
  note T1 = T [THEN conjunct2, THEN conjunct2, THEN conjunct1, rule_format, OF c]
  note T2 = T [THEN conjunct2, THEN conjunct2, THEN conjunct2, THEN conjunct1, rule_format, OF a]
  note T3 = T [THEN conjunct2, THEN conjunct2, THEN conjunct2, THEN conjunct2, THEN conjunct2,
      THEN conjunct2, THEN conjunct1, rule_format, OF res]
  note T4 = T [THEN conjunct2, THEN conjunct2, THEN conjunct2, THEN conjunct2, THEN conjunct2,
      THEN conjunct2, THEN conjunct2, rule_format, OF b]
  note N1 = forced_refresh_bypasses_cache [where w = ?N, THEN conjunct2, THEN conjunct1,
      rule_format, OF n(1)]
  note M1 = forced_refresh_bypasses_cache [where w = ?M and ?tok0.0 = PyNone, THEN conjunct2,
      THEN conjunct2, THEN conjunct2, THEN conjunct2, THEN conjunct2, THEN conjunct1,
      rule_format, OF unres]
  have 0: "sent ?W = []" "clock ?W (Suc 0) = 1001"
    by (simp_all add: example_world_def)
  have 1: "sent (snd (get_access_token True ?W)) =
     [POST ''https://api.tastytrade.com/oauth/token''
        [(''grant_type'', ''refresh_token''), (''refresh_token'', ''r1''),
         (''client_id'', ''c1''), (''client_secret'', ''s1'')]]"
    using T1 by (simp add: 0 configured_credentials_def)
  have 2: "fst (get_access_token True ?W) = Inr (PyStr ''AT1'') \<and>
      access_token_data (session_state (snd (get_access_token True ?W))) =
        Some \<lparr>access_token = PyStr ''AT1'', expires_at = Finite 1900\<rparr>"
    using T2 by simp
  have 3: "sent (snd (get_streamer_token PyNone True ?W)) =
     [GET ''https://api.tastyworks.com/api-quote-tokens''
        [(''Authorization'', Bearer (PyStr ''AT0''))]]"
    using T3 by (simp add: w1)
  have 4: "fst (get_streamer_token PyNone True ?W) = Inr (PyStr ''ST1'') \<and>
      streamer_token_data (session_state (snd (get_streamer_token PyNone True ?W))) =
        Some \<lparr>token = PyStr ''ST1'', streamer_expires_at = Finite 73001\<rparr>"
    using T4 by (simp add: w1 0 round_double_numeral)
  have 5: "fst (get_streamer_token PyNone True ?M) = Inl (ValueError missing_secrets)"
    using M1 by simp
  from fr 1 2 3 4 N1 5 show ?thesis by blast
qed

text \<open>
  The forced call does not always send its request, nor does every response of
  status 200 overwrite the slot: with a secrets file that has none of the three keys
  the forced access-token call fails before any request is sent, and a body of status
  200 without \<^verbatim>\<open>access_token\<close> leaves the fresh entry in place.
\<close>

theorem forced_refresh_counterexample:
  "fst (get_access_token True (example_world no_secrets healthy_upstream (warm_session 2000 2000))) =
     Inl (ValueError missing_secrets) \<and>
   sent (snd (get_access_token True
     (example_world no_secrets healthy_upstream (warm_session 2000 2000)))) = [] \<and>
   fst (get_access_token True
     (example_world configured_secrets (constant_upstream (ok_response (PyDict [])))
        (warm_session 2000 2000))) = Inl (KeyError ''access_token'') \<and>
   access_token_data (session_state (snd (get_access_token True
     (example_world configured_secrets (constant_upstream (ok_response (PyDict [])))
        (warm_session 2000 2000))))) =
     Some \<lparr>access_token = PyStr ''AT0'', expires_at = Finite 2000\<rparr>"
proof -
  let ?W = "example_world no_secrets healthy_upstream (warm_session 2000 2000)"
  let ?r = "ok_response (PyDict [])"
  let ?V = "example_world configured_secrets (constant_upstream ?r) (warm_session 2000 2000)"
  have "load_credentials ?W = Inl (ValueError missing_secrets)"
    by (simp add: load_credentials_def secret_def example_world_def no_secrets_def)
  then have "get_access_token True ?W =
      (Inl (ValueError missing_secrets), snd (cached_access_token True ?W))"
    by (intro access_without_credentials) simp_all
  then have 1: "fst (get_access_token True ?W) = Inl (ValueError missing_secrets)"
    and 2: "sent (snd (get_access_token True ?W)) = []"
    by (simp_all add: cached_access_token_world) (simp add: example_world_def)
  have "load_credentials ?V = Inr configured_credentials"
    and "upstream ?V (sent ?V) (oauth_request configured_credentials) = Inr ?r"
    and "read_token_response ?r = Inl (KeyError ''access_token'')"
    by (simp_all add: load_credentials_def secret_def example_world_def configured_secrets_def
        configured_credentials_def constant_upstream_def read_token_response_def ok_response_def)
  then have "fst (get_access_token True ?V) = Inl (KeyError ''access_token'') \<and>
      session_state (snd (get_access_token True ?V)) = session_state ?V"
    by (intro access_read_failure [of True ?V configured_credentials ?r]) simp_all
  then have 3: "fst (get_access_token True ?V) = Inl (KeyError ''access_token'')"
    and 4: "access_token_data (session_state (snd (get_access_token True ?V))) =
      Some \<lparr>access_token = PyStr ''AT0'', expires_at = Finite 2000\<rparr>"
    by (simp_all add: example_world_def warm_session_def)
  from 1 2 3 4 show ?thesis by blast
qed

text \<open>
  C4. The scenario of the specification. On an empty session state, with the secrets
  \<^verbatim>\<open>c1\<close>, \<^verbatim>\<open>s1\<close>, \<^verbatim>\<open>r1\<close>, the token endpoint answering 200 with
  \<^verbatim>\<open>{"access_token":"AT1","expires_in":900}\<close> and the quote-token endpoint answering 200
  with \<^verbatim>\<open>{"data":{"token":"ST1"}}\<close>, \<^verbatim>\<open>ensure_streamer_token()\<close>, which is
  \<^verbatim>\<open>get_streamer_token()\<close> with its default arguments, returns \<^verbatim>\<open>"ST1"\<close> after the two
  requests. A second call made while its clock reading plus 300 is below the stored
  expiry, the reading of the streamer write plus 72000, returns \<^verbatim>\<open>"ST1"\<close> again and
  sends nothing.
\<close>

theorem cold_start_scenario:
  assumes cold: "session_state w = cold_session"
    and secs: "secret w ''CLIENT_ID'' = Inr ''c1''" "secret w ''CLIENT_SECRET'' = Inr ''s1''"
      "secret w ''REFRESH_TOKEN'' = Inr ''r1''"
    and up1: "upstream w (sent w) (oauth_request configured_credentials) = Inr r1"
    and ok1: "status_code r1 = 200" "resp_json r1 = Inr token_body"
    and up2: "upstream w (sent w @ [oauth_request configured_credentials])
        (quote_token_request (PyStr ''AT1'')) = Inr r2"
    and ok2: "status_code r2 = 200" "resp_json r2 = Inr quote_body"
    and immediate: "fless (fadd (Finite (clock w (clock_reads w + 2))) (Finite 300))
        (fadd (Finite (clock w (clock_reads w + 1))) (Finite 72000))"
  shows "ensure_streamer_token w = get_streamer_token PyNone False w \<and>
     fst (ensure_streamer_token w) = Inr (PyStr ''ST1'') \<and>
     sent (snd (ensure_streamer_token w)) =
       sent w @ [oauth_request configured_credentials, quote_token_request (PyStr ''AT1'')] \<and>
     fst (ensure_streamer_token (snd (ensure_streamer_token w))) = Inr (PyStr ''ST1'') \<and>
     sent (snd (ensure_streamer_token (snd (ensure_streamer_token w)))) =
       sent (snd (ensure_streamer_token w))"
proof -
  have creds: "load_credentials w = Inr configured_credentials"
    using secs by (simp add: load_credentials_present configured_credentials_def)
  let ?s = "\<lparr>token = PyStr ''ST1'',
              streamer_expires_at =
                fadd (Finite (clock w (Suc (clock_reads w)))) (Finite 72000)\<rparr>"
  let ?w' = "w\<lparr>session_state :=
          \<lparr>access_token_data =
             Some \<lparr>access_token = PyStr ''AT1'', expires_at = fadd (Finite (clock w (clock_reads w))) (Finite 900)\<rparr>,
           streamer_token_data = Some ?s\<rparr>,
        clock_reads := Suc (Suc (clock_reads w)),
        sent := sent w @ [oauth_request configured_credentials,
                          quote_token_request (PyStr ''AT1'')]\<rparr>"
  have first: "ensure_streamer_token w = (Inr (PyStr ''ST1''), ?w')"
    unfolding ensure_streamer_token_def
    by (rule cold_start_first_call [OF cold creds up1 ok1 up2 ok2])
  have slot: "streamer_token_data (session_state ?w') = Some ?s" by simp
  have fresh: "fless (fadd (Finite (clock ?w' (clock_reads ?w'))) (Finite 300))
      (streamer_expires_at ?s)"
    using immediate by simp
  have second: "ensure_streamer_token ?w' =
      (Inr (token ?s), ?w'\<lparr>clock_reads := Suc (clock_reads ?w')\<rparr>)"
    unfolding ensure_streamer_token_def
    by (rule get_streamer_token_fresh [OF slot fresh])
  have "ensure_streamer_token w = get_streamer_token PyNone False w"
    by (simp add: ensure_streamer_token_def)
  moreover have "fst (ensure_streamer_token w) = Inr (PyStr ''ST1'')"
    by (simp add: first del: fadd.simps)
  moreover have "sent (snd (ensure_streamer_token w)) =
      sent w @ [oauth_request configured_credentials, quote_token_request (PyStr ''AT1'')]"
    by (simp add: first del: fadd.simps)
  moreover have "fst (ensure_streamer_token (snd (ensure_streamer_token w))) = Inr (PyStr ''ST1'')"
    by (simp add: first second del: fadd.simps)
  moreover have "sent (snd (ensure_streamer_token (snd (ensure_streamer_token w)))) =
      sent (snd (ensure_streamer_token w))"
    by (simp add: first second del: fadd.simps)
  ultimately show ?thesis by blast
qed

theorem cold_start_scenario_witness:
  "fst (ensure_streamer_token (example_world configured_secrets healthy_upstream cold_session)) =
     Inr (PyStr ''ST1'') \<and>
   sent (snd (ensure_streamer_token
     (example_world configured_secrets healthy_upstream cold_session))) =
     [oauth_request configured_credentials, quote_token_request (PyStr ''AT1'')] \<and>
   fst (ensure_streamer_token (snd (ensure_streamer_token
     (example_world configured_secrets healthy_upstream cold_session)))) = Inr (PyStr ''ST1'') \<and>
   sent (snd (ensure_streamer_token (snd (ensure_streamer_token
     (example_world configured_secrets healthy_upstream cold_session))))) =
     [oauth_request configured_credentials, quote_token_request (PyStr ''AT1'')]"
proof -
  let ?W = "example_world configured_secrets healthy_upstream cold_session"
  have "session_state ?W = cold_session"
    and "secret ?W ''CLIENT_ID'' = Inr ''c1''"
    and "secret ?W ''CLIENT_SECRET'' = Inr ''s1''"
    and "secret ?W ''REFRESH_TOKEN'' = Inr ''r1''"
    and "upstream ?W (sent ?W) (oauth_request configured_credentials) =
      Inr (ok_response token_body)"
    and "status_code (ok_response token_body) = 200"
    and "resp_json (ok_response token_body) = Inr token_body"
    and "upstream ?W (sent ?W @ [oauth_request configured_credentials])
        (quote_token_request (PyStr ''AT1'')) = Inr (ok_response quote_body)"
    and "status_code (ok_response quote_body) = 200"
    and "resp_json (ok_response quote_body) = Inr quote_body"
    and "fless (fadd (Finite (clock ?W (clock_reads ?W + 2))) (Finite 300))
        (fadd (Finite (clock ?W (clock_reads ?W + 1))) (Finite 72000))"
    by (simp_all add: example_world_def secret_def configured_secrets_def healthy_upstream_def
        oauth_request_def quote_token_request_def ok_response_def round_double_numeral)
  note T = cold_start_scenario [OF this]
  have "sent ?W = []" by (simp add: example_world_def)
  with T [THEN conjunct2] show ?thesis by simp
qed



text \<open>
  C6. A status other than 200 makes the call fail with an \<open>Exception\<close> whose message
  is a fixed prefix followed by the response text, unchanged. The request is sent
  once: the log grows by the one request of the exchange, after at most one request
  of the nested access-token acquisition on the streamer path.
\<close>

theorem exchange_error_carries_body:
  "((f \<or> \<not> access_fresh w) \<and> load_credentials w = Inr c \<and>
    upstream w (sent w) (oauth_request c) = Inr r \<and> status_code r \<noteq> 200 \<longrightarrow>
      fst (get_access_token f w) = Inl (Exception (''Token error: '' @ resp_text r)) \<and>
      sent (snd (get_access_token f w)) = sent w @ [oauth_request c]) \<and>
   ((f \<or> \<not> streamer_fresh w) \<and>
    resolve_access_token tok0 (snd (cached_streamer_token f w)) = (Inr tok, w1) \<and>
    upstream w (sent w1) (quote_token_request tok) = Inr r \<and> status_code r \<noteq> 200 \<longrightarrow>
      fst (get_streamer_token tok0 f w) =
        Inl (Exception (''Streamer token error: '' @ resp_text r)) \<and>
      sent (snd (get_streamer_token tok0 f w)) = sent w1 @ [quote_token_request tok] \<and>
      (sent w1 = sent w \<or> (\<exists>c'. sent w1 = sent w @ [oauth_request c'])))"
proof (intro conjI impI)
  assume a: "(f \<or> \<not> access_fresh w) \<and> load_credentials w = Inr c \<and>
    upstream w (sent w) (oauth_request c) = Inr r \<and> status_code r \<noteq> 200"
  then have g: "get_access_token f w =
     (Inl (Exception (''Token error: '' @ resp_text r)),
      (snd (cached_access_token f w))\<lparr>sent := sent w @ [oauth_request c]\<rparr>)"
    by (intro access_non_success) simp_all
  show "fst (get_access_token f w) = Inl (Exception (''Token error: '' @ resp_text r))"
    by (simp add: g)
  show "sent (snd (get_access_token f w)) = sent w @ [oauth_request c]"
    by (simp add: g)
next
  assume a: "(f \<or> \<not> streamer_fresh w) \<and>
    resolve_access_token tok0 (snd (cached_streamer_token f w)) = (Inr tok, w1) \<and>
    upstream w (sent w1) (quote_token_request tok) = Inr r \<and> status_code r \<noteq> 200"
  then have g: "get_streamer_token tok0 f w =
     (Inl (Exception (''Streamer token error: '' @ resp_text r)),
      w1\<lparr>sent := sent w1 @ [quote_token_request tok]\<rparr>)"
    by (intro streamer_non_success) simp_all
  show "fst (get_streamer_token tok0 f w) =
      Inl (Exception (''Streamer token error: '' @ resp_text r))"
    by (simp add: g)
  show "sent (snd (get_streamer_token tok0 f w)) = sent w1 @ [quote_token_request tok]"
    by (simp add: g)
  from a resolve_access_token_sent [of tok0 "snd (cached_streamer_token f w)"]
  show "sent w1 = sent w \<or> (\<exists>c'. sent w1 = sent w @ [oauth_request c'])"
    by (auto simp add: cached_streamer_token_world)
qed

theorem exchange_error_carries_body_witness:
  "status_code unavailable \<noteq> 200 \<and>
   \<not> streamer_fresh (example_world configured_secrets (constant_upstream unavailable)
        (warm_session 2000 1299)) \<and>
   fst (get_access_token True
        (example_world configured_secrets (constant_upstream unavailable) (warm_session 2000 1299))) =
     Inl (Exception ''Token error: upstream unavailable'') \<and>
   sent (snd (get_access_token True
        (example_world configured_secrets (constant_upstream unavailable) (warm_session 2000 1299)))) =
     [oauth_request configured_credentials] \<and>
   fst (get_streamer_token PyNone False
        (example_world configured_secrets (constant_upstream unavailable) (warm_session 2000 1299))) =
     Inl (Exception ''Streamer token error: upstream unavailable'') \<and>
   sent (snd (get_streamer_token PyNone False
        (example_world configured_secrets (constant_upstream unavailable) (warm_session 2000 1299)))) =
     [quote_token_request (PyStr ''AT0'')]"
  using exchange_error_carries_body
    [of True "example_world configured_secrets (constant_upstream unavailable) (warm_session 2000 1299)"
      configured_credentials unavailable]
    exchange_error_carries_body
    [of False "example_world configured_secrets (constant_upstream unavailable) (warm_session 2000 1299)"
      configured_credentials unavailable PyNone "PyStr ''AT0''"
      "snd (get_access_token False (snd (cached_streamer_token False
         (example_world configured_secrets (constant_upstream unavailable) (warm_session 2000 1299)))))"]
  by (simp add: example_world_def warm_session_def access_fresh_def streamer_fresh_def
      load_credentials_def secret_def round_double_numeral configured_secrets_def configured_credentials_def
      constant_upstream_def unavailable_def resolve_access_token_def
      get_access_token_def cached_access_token_def cached_streamer_token_def time_time_def)

text \<open>
  C7. When a secrets file is found and lacks one of \<^verbatim>\<open>CLIENT_ID\<close>, \<^verbatim>\<open>CLIENT_SECRET\<close>,
  \<^verbatim>\<open>REFRESH_TOKEN\<close>, \<^verbatim>\<open>load_credentials\<close> fails with the \<open>ValueError\<close> of line 28, and
  so does every acquisition that reaches the refresh of the access token, before any
  request and with the session state unchanged. A handler for \<^verbatim>\<open>ValueError\<close> catches
  that error and never the \<open>Exception\<close> raised on an upstream status other than 200; a
  handler for \<^verbatim>\<open>Exception\<close> catches both. When the three keys are present the bundle
  holds exactly their values.
\<close>

theorem missing_secret_is_configuration_error:
  "(secrets w = Secrets m \<and>
    (m ''CLIENT_ID'' = None \<or> m ''CLIENT_SECRET'' = None \<or> m ''REFRESH_TOKEN'' = None) \<longrightarrow>
      load_credentials w = Inl (ValueError missing_secrets) \<and>
      (f \<or> \<not> access_fresh w \<longrightarrow>
         fst (get_access_token f w) = Inl (ValueError missing_secrets) \<and>
         sent (snd (get_access_token f w)) = sent w \<and>
         session_state (snd (get_access_token f w)) = session_state w) \<and>
      ((g \<or> \<not> streamer_fresh w) \<and> \<not> access_fresh (snd (cached_streamer_token g w)) \<longrightarrow>
         fst (get_streamer_token PyNone g w) = Inl (ValueError missing_secrets) \<and>
         sent (snd (get_streamer_token PyNone g w)) = sent w \<and>
         session_state (snd (get_streamer_token PyNone g w)) = session_state w)) \<and>
   catches Except_ValueError (ValueError missing_secrets) \<and>
   (\<forall>msg. \<not> catches Except_ValueError (Exception msg)) \<and>
   (\<forall>msg. catches Except_Exception (ValueError missing_secrets) \<and>
          catches Except_Exception (Exception msg)) \<and>
   (secrets w = Secrets m \<and> m ''CLIENT_ID'' = Some a \<and> m ''CLIENT_SECRET'' = Some b \<and>
    m ''REFRESH_TOKEN'' = Some d \<longrightarrow>
      load_credentials w = Inr \<lparr>client_id = a, client_secret = b, refresh_token = d\<rparr>)"
proof (intro conjI impI allI)
  assume m: "secrets w = Secrets m \<and>
    (m ''CLIENT_ID'' = None \<or> m ''CLIENT_SECRET'' = None \<or> m ''REFRESH_TOKEN'' = None)"
  then show l: "load_credentials w = Inl (ValueError missing_secrets)"
    by (intro load_credentials_missing [of w m]) simp_all
  {
    assume r: "f \<or> \<not> access_fresh w"
    note g = access_without_credentials [OF r l]
    show "fst (get_access_token f w) = Inl (ValueError missing_secrets)"
      by (simp add: g)
    show "sent (snd (get_access_token f w)) = sent w"
      by (simp add: g cached_access_token_world)
    show "session_state (snd (get_access_token f w)) = session_state w"
      by (simp add: g cached_access_token_world)
  }
  {
    assume r: "(g \<or> \<not> streamer_fresh w) \<and> \<not> access_fresh (snd (cached_streamer_token g w))"
    let ?w = "snd (cached_streamer_token g w)"
    have "load_credentials ?w = Inl (ValueError missing_secrets)"
      using l load_credentials_cong [of ?w w] by (simp add: cached_streamer_token_world)
    with r have "get_access_token False ?w =
        (Inl (ValueError missing_secrets), snd (cached_access_token False ?w))"
      by (intro access_without_credentials) simp_all
    then have "refresh_streamer_token PyNone ?w =
        (Inl (ValueError missing_secrets), snd (cached_access_token False ?w))"
      by (simp add: refresh_streamer_token_def resolve_access_token_def)
    with r have s: "get_streamer_token PyNone g w =
        (Inl (ValueError missing_secrets), snd (cached_access_token False ?w))"
      by (simp add: get_streamer_token_refresh)
    show "fst (get_streamer_token PyNone g w) = Inl (ValueError missing_secrets)"
      by (simp add: s)
    show "sent (snd (get_streamer_token PyNone g w)) = sent w"
      by (simp add: s cached_access_token_world cached_streamer_token_world)
    show "session_state (snd (get_streamer_token PyNone g w)) = session_state w"
      by (simp add: s cached_access_token_world cached_streamer_token_world)
  }
next
  show "catches Except_ValueError (ValueError missing_secrets)" by simp
  show "\<not> catches Except_ValueError (Exception msg)" for msg by simp
  show "catches Except_Exception (ValueError missing_secrets)" by simp
  show "catches Except_Exception (Exception msg)" for msg by simp
next
  assume "secrets w = Secrets m \<and> m ''CLIENT_ID'' = Some a \<and> m ''CLIENT_SECRET'' = Some b \<and>
    m ''REFRESH_TOKEN'' = Some d"
  then show "load_credentials w = Inr \<lparr>client_id = a, client_secret = b, refresh_token = d\<rparr>"
    by (intro load_credentials_present) (simp_all add: secret_def)
qed

theorem missing_secret_is_configuration_error_witness:
  "load_credentials (example_world incomplete_secrets healthy_upstream (warm_session 1059 1299)) =
     Inl (ValueError missing_secrets) \<and>
   fst (get_access_token False
     (example_world incomplete_secrets healthy_upstream (warm_session 1059 1299))) =
     Inl (ValueError missing_secrets) \<and>
   fst (get_streamer_token PyNone False
     (example_world incomplete_secrets healthy_upstream (warm_session 1059 1299))) =
     Inl (ValueError missing_secrets) \<and>
   load_credentials (example_world configured_secrets healthy_upstream cold_session) =
     Inr \<lparr>client_id = ''c1'', client_secret = ''s1'', refresh_token = ''r1''\<rparr>"
proof -
  let ?W = "example_world incomplete_secrets healthy_upstream (warm_session 1059 1299)"
  let ?V = "example_world configured_secrets healthy_upstream cold_session"
  let ?mi = "[''CLIENT_ID'' \<mapsto> ''c1'', ''REFRESH_TOKEN'' \<mapsto> ''r1'']"
  let ?mc = "[''CLIENT_ID'' \<mapsto> ''c1'', ''CLIENT_SECRET'' \<mapsto> ''s1'', ''REFRESH_TOKEN'' \<mapsto> ''r1'']"
  have m: "secrets ?W = Secrets ?mi \<and>
      (?mi ''CLIENT_ID'' = None \<or> ?mi ''CLIENT_SECRET'' = None \<or> ?mi ''REFRESH_TOKEN'' = None)"
    by (simp add: example_world_def incomplete_secrets_def)
  have a: "False \<or> \<not> access_fresh ?W"
    by (simp add: example_world_def warm_session_def access_fresh_def round_double_numeral)
  have s: "(False \<or> \<not> streamer_fresh ?W) \<and>
      \<not> access_fresh (snd (cached_streamer_token False ?W))"
    by (simp add: example_world_def warm_session_def access_fresh_def streamer_fresh_def
        cached_streamer_token_def time_time_def round_double_numeral)
  have p: "secrets ?V = Secrets ?mc \<and> ?mc ''CLIENT_ID'' = Some ''c1'' \<and>
      ?mc ''CLIENT_SECRET'' = Some ''s1'' \<and> ?mc ''REFRESH_TOKEN'' = Some ''r1''"
    by (simp add: example_world_def configured_secrets_def)
  note M = missing_secret_is_configuration_error
    [where w = ?W and m = ?mi and f = False and g = False, THEN conjunct1, rule_format, OF m]
  note P = missing_secret_is_configuration_error
    [where w = ?V and m = ?mc and a = "''c1''" and b = "''s1''" and d = "''r1''",
      THEN conjunct2, THEN conjunct2, THEN conjunct2, THEN conjunct2, rule_format, OF p]
  from M [THEN conjunct1] M [THEN conjunct2, THEN conjunct1, rule_format, OF a, THEN conjunct1]
    M [THEN conjunct2, THEN conjunct2, rule_format, OF s, THEN conjunct1] P
  show ?thesis by simp
qed

text \<open>
  Not every store without the keys gives the \<open>ValueError\<close>: when no secrets file is
  found the lookup raises \<open>StreamlitSecretNotFoundError\<close>, which the handler of line 27
  lets through and no handler for \<^verbatim>\<open>ValueError\<close> catches. And the handler that catches
  the upstream failures catches the \<open>ValueError\<close> too.
\<close>

theorem missing_secret_counterexample:
  "load_credentials (example_world No_secrets_file healthy_upstream cold_session) =
     Inl StreamlitSecretNotFoundError \<and>
   fst (get_access_token False (example_world No_secrets_file healthy_upstream cold_session)) =
     Inl StreamlitSecretNotFoundError \<and>
   \<not> catches Except_ValueError StreamlitSecretNotFoundError \<and>
   catches Except_Exception (ValueError missing_secrets)"
proof -
  let ?W = "example_world No_secrets_file healthy_upstream cold_session"
  have l: "load_credentials ?W = Inl StreamlitSecretNotFoundError"
    by (rule load_credentials_no_file) (simp add: example_world_def)
  have "access_token_data (session_state ?W) = None"
    by (simp add: example_world_def cold_session_def)
  then have "get_access_token False ?W = refresh_access_token ?W"
    by (rule get_access_token_absent)
  with l have "fst (get_access_token False ?W) = Inl StreamlitSecretNotFoundError"
    by (simp add: refresh_access_token_no_credentials)
  with l show ?thesis by simp
qed

text \<open>
  C8. Without \<^verbatim>\<open>force_refresh\<close> and with a fresh streamer entry, the streamer-token
  acquisition does not depend on its \<^verbatim>\<open>access_token\<close> argument: any two arguments,
  \<^verbatim>\<open>None\<close> included, give the same result and the same final world, which is the
  cached token, no request sent and the session state unchanged. On the refresh path a
  supplied access token (one that is not \<^verbatim>\<open>None\<close>) goes unchanged into the
  \<^verbatim>\<open>Authorization\<close> header of the one request sent, the GET of the quote-token
  endpoint; the access slot is neither read nor written.
\<close>

theorem fresh_streamer_token_ignores_access_token:
  "(streamer_token_data (session_state w) = Some s \<and>
    fless (fadd (Finite (clock w (clock_reads w))) (Finite 300)) (streamer_expires_at s) \<longrightarrow>
      get_streamer_token a False w = get_streamer_token b False w \<and>
      get_streamer_token a False w = (Inr (token s), snd (time_time w)) \<and>
      sent (snd (get_streamer_token a False w)) = sent w \<and>
      session_state (snd (get_streamer_token a False w)) = session_state w) \<and>
   (tok \<noteq> PyNone \<longrightarrow>
      get_streamer_token tok f (with_access_slot x w) =
        (fst (get_streamer_token tok f w), with_access_slot x (snd (get_streamer_token tok f w))) \<and>
      access_token_data (session_state (snd (get_streamer_token tok f w))) =
        access_token_data (session_state w) \<and>
      (f \<or> \<not> streamer_fresh w \<longrightarrow>
         sent (snd (get_streamer_token tok f w)) =
           sent w @ [GET ''https://api.tastyworks.com/api-quote-tokens''
                       [(''Authorization'', Bearer tok)]]))"
proof (intro conjI impI)
  assume h: "streamer_token_data (session_state w) = Some s \<and>
    fless (fadd (Finite (clock w (clock_reads w))) (Finite 300)) (streamer_expires_at s)"
  then have g: "get_streamer_token t False w =
      (Inr (token s), w\<lparr>clock_reads := Suc (clock_reads w)\<rparr>)" for t
    by (simp add: get_streamer_token_fresh)
  show "get_streamer_token a False w = get_streamer_token b False w"
    by (simp add: g)
  show "get_streamer_token a False w = (Inr (token s), snd (time_time w))"
    by (simp add: g time_time_def)
  show "sent (snd (get_streamer_token a False w)) = sent w"
    by (simp add: g)
  show "session_state (snd (get_streamer_token a False w)) = session_state w"
    by (simp add: g)
next
  assume t: "tok \<noteq> PyNone"
  show "get_streamer_token tok f (with_access_slot x w) =
        (fst (get_streamer_token tok f w), with_access_slot x (snd (get_streamer_token tok f w)))"
    using t by (rule get_streamer_token_access_slot)
  show "access_token_data (session_state (snd (get_streamer_token tok f w))) =
        access_token_data (session_state w)"
    using t by (rule get_streamer_token_supplied_access_slot)
  show "sent (snd (get_streamer_token tok f w)) =
      sent w @ [GET ''https://api.tastyworks.com/api-quote-tokens''
                  [(''Authorization'', Bearer tok)]]"
    if "f \<or> \<not> streamer_fresh w"
    using get_streamer_token_supplied_sent [OF t that] by (simp add: quote_token_request_def)
qed

theorem fresh_streamer_token_ignores_access_token_witness:
  "PyStr ''AT9'' \<noteq> PyNone \<and>
   get_streamer_token PyNone False
       (example_world configured_secrets healthy_upstream (warm_session 1059 1301)) =
     get_streamer_token (PyStr ''AT9'') False
       (example_world configured_secrets healthy_upstream (warm_session 1059 1301)) \<and>
   fst (get_streamer_token PyNone False
       (example_world configured_secrets healthy_upstream (warm_session 1059 1301))) =
     Inr (PyStr ''ST0'') \<and>
   sent (snd (get_streamer_token (PyStr ''AT9'') True
       (example_world configured_secrets healthy_upstream (warm_session 1059 1301)))) =
     [GET ''https://api.tastyworks.com/api-quote-tokens''
        [(''Authorization'', Bearer (PyStr ''AT9''))]] \<and>
   access_token_data (session_state (snd (get_streamer_token (PyStr ''AT9'') True
       (example_world configured_secrets healthy_upstream (warm_session 1059 1301))))) =
     Some \<lparr>access_token = PyStr ''AT0'', expires_at = Finite 1059\<rparr>"
proof -
  let ?W = "example_world configured_secrets healthy_upstream (warm_session 1059 1301)"
  let ?s = "\<lparr>token = PyStr ''ST0'', streamer_expires_at = Finite 1301\<rparr>"
  note T = fresh_streamer_token_ignores_access_token
    [of ?W ?s PyNone "PyStr ''AT9''" "PyStr ''AT9''" True None]
  have h1: "streamer_token_data (session_state ?W) = Some ?s \<and>
      fless (fadd (Finite (clock ?W (clock_reads ?W))) (Finite 300)) (streamer_expires_at ?s)"
    by (simp add: example_world_def warm_session_def round_double_numeral)
  have h2: "PyStr ''AT9'' \<noteq> PyNone" by simp
  note A = T [THEN conjunct1, rule_format, OF h1]
  note B = T [THEN conjunct2, rule_format, OF h2]
  have "fst (get_streamer_token PyNone False ?W) = Inr (PyStr ''ST0'')"
    by (simp add: A [THEN conjunct2, THEN conjunct1])
  moreover have "sent ?W = []" by (simp add: example_world_def)
  moreover have "access_token_data (session_state ?W) =
      Some \<lparr>access_token = PyStr ''AT0'', expires_at = Finite 1059\<rparr>"
    by (simp add: example_world_def warm_session_def)
  ultimately show ?thesis
    using A [THEN conjunct1] B [THEN conjunct2, THEN conjunct1]
      B [THEN conjunct2, THEN conjunct2] by simp
qed

text \<open>
  C9. The access-token acquisition neither writes nor reads the streamer slot: the slot
  is the same afterwards, and replacing it beforehand changes nothing but that slot of
  the final world. The streamer-token acquisition with a supplied access token leaves
  the access slot as it was; without one, the access slot is what the nested
  access-token acquisition leaves.
\<close>

theorem cache_slots_are_separate:
  "streamer_token_data (session_state (snd (get_access_token f w))) =
     streamer_token_data (session_state w) \<and>
   get_access_token f (with_streamer_slot x w) =
     (fst (get_access_token f w), with_streamer_slot x (snd (get_access_token f w))) \<and>
   (tok \<noteq> PyNone \<longrightarrow>
      access_token_data (session_state (snd (get_streamer_token tok f w))) =
        access_token_data (session_state w)) \<and>
   access_token_data (session_state (snd (get_streamer_token PyNone f w))) =
     (if \<not> f \<and> streamer_fresh w then access_token_data (session_state w)
      else access_token_data (session_state
             (snd (get_access_token False (snd (cached_streamer_token f w))))))"
proof (intro conjI impI)
  show "streamer_token_data (session_state (snd (get_access_token f w))) =
     streamer_token_data (session_state w)"
    by (simp add: get_access_token_frame)
  show "get_access_token f (with_streamer_slot x w) =
     (fst (get_access_token f w), with_streamer_slot x (snd (get_access_token f w)))"
    by (rule get_access_token_streamer_slot)
  show "access_token_data (session_state (snd (get_streamer_token tok f w))) =
        access_token_data (session_state w)" if "tok \<noteq> PyNone"
    using that by (rule get_streamer_token_supplied_access_slot)
  show "access_token_data (session_state (snd (get_streamer_token PyNone f w))) =
     (if \<not> f \<and> streamer_fresh w then access_token_data (session_state w)
      else access_token_data (session_state
             (snd (get_access_token False (snd (cached_streamer_token f w))))))"
  proof (cases "\<not> f \<and> streamer_fresh w")
    case True
    then show ?thesis
      by (auto simp add: streamer_fresh_def get_streamer_token_fresh split: option.splits)
  next
    case False
    then have r: "f \<or> \<not> streamer_fresh w" by simp
    have "access_token_data (session_state (snd (get_streamer_token PyNone f w))) =
        access_token_data (session_state
          (snd (get_access_token False (snd (cached_streamer_token f w)))))"
      by (simp add: get_streamer_token_refresh [OF r] refresh_streamer_token_keeps_access_slot
          resolve_access_token_def)
    with False show ?thesis by auto
  qed
qed

theorem cache_slots_are_separate_witness:
  "PyStr ''AT9'' \<noteq> PyNone \<and>
   streamer_token_data (session_state (snd (get_access_token True
       (example_world configured_secrets healthy_upstream (warm_session 1059 1299))))) =
     Some \<lparr>token = PyStr ''ST0'', streamer_expires_at = Finite 1299\<rparr> \<and>
   access_token_data (session_state (snd (get_streamer_token (PyStr ''AT9'') True
       (example_world configured_secrets healthy_upstream (warm_session 1059 1299))))) =
     Some \<lparr>access_token = PyStr ''AT0'', expires_at = Finite 1059\<rparr>"
  using cache_slots_are_separate
    [of True "example_world configured_secrets healthy_upstream (warm_session 1059 1299)"
      None "PyStr ''AT9''"]
  by (simp add: example_world_def warm_session_def)

text \<open>
  C10. When a response of status 200 has a body in which the lookup of
  \<^verbatim>\<open>access_token\<close> (access path), or of \<^verbatim>\<open>data\<close> or of \<^verbatim>\<open>token\<close> inside it (streamer
  path), fails, the call fails with the error of that lookup and the slot of its kind
  is what it was before the call. For a JSON object without the key the error is a
  \<open>KeyError\<close> of that key.
\<close>

theorem malformed_success_keeps_cache:
  "((f \<or> \<not> access_fresh w) \<and> load_credentials w = Inr c \<and>
    upstream w (sent w) (oauth_request c) = Inr r \<and> status_code r = 200 \<and>
    resp_json r = Inr body \<and> py_getitem body ''access_token'' = Inl e \<longrightarrow>
      fst (get_access_token f w) = Inl e \<and>
      session_state (snd (get_access_token f w)) = session_state w \<and>
      (\<forall>kvs. body = PyDict kvs \<longrightarrow> e = KeyError ''access_token'')) \<and>
   ((g \<or> \<not> streamer_fresh w) \<and>
    resolve_access_token tok0 (snd (cached_streamer_token g w)) = (Inr tok, w1) \<and>
    upstream w (sent w1) (quote_token_request tok) = Inr r' \<and> status_code r' = 200 \<and>
    resp_json r' = Inr body' \<and>
    (py_getitem body' ''data'' = Inl e' \<or>
     (\<exists>d. py_getitem body' ''data'' = Inr d \<and> py_getitem d ''token'' = Inl e')) \<longrightarrow>
      fst (get_streamer_token tok0 g w) = Inl e' \<and>
      streamer_token_data (session_state (snd (get_streamer_token tok0 g w))) =
        streamer_token_data (session_state w) \<and>
      (\<forall>kvs. body' = PyDict kvs \<and> map_of kvs ''data'' = None \<longrightarrow> e' = KeyError ''data'') \<and>
      (\<forall>kvs kvs'. body' = PyDict kvs \<and> map_of kvs ''data'' = Some (PyDict kvs') \<longrightarrow>
         e' = KeyError ''token''))"
proof (intro conjI impI allI)
  assume a: "(f \<or> \<not> access_fresh w) \<and> load_credentials w = Inr c \<and>
    upstream w (sent w) (oauth_request c) = Inr r \<and> status_code r = 200 \<and>
    resp_json r = Inr body \<and> py_getitem body ''access_token'' = Inl e"
  then have "read_token_response r = Inl e"
    by (simp add: read_token_response_lookup)
  with a have "fst (get_access_token f w) = Inl e \<and>
      session_state (snd (get_access_token f w)) = session_state w"
    by (intro access_read_failure [of f w c r e]) simp_all
  then show "fst (get_access_token f w) = Inl e"
    and "session_state (snd (get_access_token f w)) = session_state w"
    by simp_all
  show "e = KeyError ''access_token''" if "body = PyDict kvs" for kvs
    using a that by (simp split: option.splits)
next
  assume a: "(g \<or> \<not> streamer_fresh w) \<and>
    resolve_access_token tok0 (snd (cached_streamer_token g w)) = (Inr tok, w1) \<and>
    upstream w (sent w1) (quote_token_request tok) = Inr r' \<and> status_code r' = 200 \<and>
    resp_json r' = Inr body' \<and>
    (py_getitem body' ''data'' = Inl e' \<or>
     (\<exists>d. py_getitem body' ''data'' = Inr d \<and> py_getitem d ''token'' = Inl e'))"
  then have "read_quote_response r' = Inl e'"
    by (intro read_quote_response_lookup [of r' body' e']) simp_all
  with a have "fst (get_streamer_token tok0 g w) = Inl e' \<and>
      streamer_token_data (session_state (snd (get_streamer_token tok0 g w))) =
        streamer_token_data (session_state w)"
    by (intro streamer_read_failure [of g w tok0 tok w1 r' e']) simp_all
  then show "fst (get_streamer_token tok0 g w) = Inl e'"
    and "streamer_token_data (session_state (snd (get_streamer_token tok0 g w))) =
        streamer_token_data (session_state w)"
    by simp_all
  show "e' = KeyError ''data''" if "body' = PyDict kvs \<and> map_of kvs ''data'' = None" for kvs
    using a that by auto
  show "e' = KeyError ''token''"
    if "body' = PyDict kvs \<and> map_of kvs ''data'' = Some (PyDict kvs')" for kvs kvs'
    using a that by (auto split: option.splits)
qed

theorem malformed_success_keeps_cache_witness:
  "fst (get_access_token True
      (example_world configured_secrets (constant_upstream (ok_response (PyDict [])))
         (warm_session 1059 1299))) = Inl (KeyError ''access_token'') \<and>
   session_state (snd (get_access_token True
      (example_world configured_secrets (constant_upstream (ok_response (PyDict [])))
         (warm_session 1059 1299)))) = warm_session 1059 1299 \<and>
   fst (get_streamer_token (PyStr ''AT9'') True
      (example_world configured_secrets (constant_upstream (ok_response (PyDict [])))
         (warm_session 1059 1299))) = Inl (KeyError ''data'') \<and>
   fst (get_streamer_token (PyStr ''AT9'') True
      (example_world configured_secrets
         (constant_upstream (ok_response (PyDict [(''data'', PyDict [])])))
         (warm_session 1059 1299))) = Inl (KeyError ''token'') \<and>
   streamer_token_data (session_state (snd (get_streamer_token (PyStr ''AT9'') True
      (example_world configured_secrets
         (constant_upstream (ok_response (PyDict [(''data'', PyDict [])])))
         (warm_session 1059 1299))))) =
     Some \<lparr>token = PyStr ''ST0'', streamer_expires_at = Finite 1299\<rparr>"
proof -
  let ?r = "ok_response (PyDict [])"
  let ?r' = "ok_response (PyDict [(''data'', PyDict [])])"
  let ?W = "example_world configured_secrets (constant_upstream ?r) (warm_session 1059 1299)"
  let ?W' = "example_world configured_secrets (constant_upstream ?r') (warm_session 1059 1299)"
  have a: "(True \<or> \<not> access_fresh ?W) \<and> load_credentials ?W = Inr configured_credentials \<and>
      upstream ?W (sent ?W) (oauth_request configured_credentials) = Inr ?r \<and>
      status_code ?r = 200 \<and> resp_json ?r = Inr (PyDict []) \<and>
      py_getitem (PyDict []) ''access_token'' = Inl (KeyError ''access_token'')"
    by (simp add: example_world_def load_credentials_def secret_def round_double_numeral configured_secrets_def
        configured_credentials_def constant_upstream_def ok_response_def)
  have b: "(True \<or> \<not> streamer_fresh ?W) \<and>
      resolve_access_token (PyStr ''AT9'') (snd (cached_streamer_token True ?W)) =
        (Inr (PyStr ''AT9''), snd (cached_streamer_token True ?W)) \<and>
      upstream ?W (sent (snd (cached_streamer_token True ?W)))
        (quote_token_request (PyStr ''AT9'')) = Inr ?r \<and>
      status_code ?r = 200 \<and> resp_json ?r = Inr (PyDict []) \<and>
      (py_getitem (PyDict []) ''data'' = Inl (KeyError ''data'') \<or>
       (\<exists>d. py_getitem (PyDict []) ''data'' = Inr d \<and>
            py_getitem d ''token'' = Inl (KeyError ''data'')))"
    by (simp add: example_world_def constant_upstream_def ok_response_def
        resolve_access_token_def)
  have c: "(True \<or> \<not> streamer_fresh ?W') \<and>
      resolve_access_token (PyStr ''AT9'') (snd (cached_streamer_token True ?W')) =
        (Inr (PyStr ''AT9''), snd (cached_streamer_token True ?W')) \<and>
      upstream ?W' (sent (snd (cached_streamer_token True ?W')))
        (quote_token_request (PyStr ''AT9'')) = Inr ?r' \<and>
      status_code ?r' = 200 \<and> resp_json ?r' = Inr (PyDict [(''data'', PyDict [])]) \<and>
      (py_getitem (PyDict [(''data'', PyDict [])]) ''data'' = Inl (KeyError ''token'') \<or>
       (\<exists>d. py_getitem (PyDict [(''data'', PyDict [])]) ''data'' = Inr d \<and>
            py_getitem d ''token'' = Inl (KeyError ''token'')))"
    by (simp add: example_world_def constant_upstream_def ok_response_def
        resolve_access_token_def)
  note A = malformed_success_keeps_cache [THEN conjunct1, rule_format, OF a]
  note B = malformed_success_keeps_cache [THEN conjunct2, rule_format, OF b]
  note C = malformed_success_keeps_cache [THEN conjunct2, rule_format, OF c]
  have "session_state ?W = warm_session 1059 1299"
    by (simp add: example_world_def)
  moreover have "streamer_token_data (session_state ?W') =
      Some \<lparr>token = PyStr ''ST0'', streamer_expires_at = Finite 1299\<rparr>"
    by (simp add: example_world_def warm_session_def)
  ultimately show ?thesis
    using A [THEN conjunct1] A [THEN conjunct2, THEN conjunct1] B [THEN conjunct1]
      C [THEN conjunct1] C [THEN conjunct2, THEN conjunct1]
    by simp
qed

end
